theory Spec2Isabelle
  imports Main "HOL-Library.Sublist"
begin

section \<open>Minmeet: the meeting client (app.js) and the audio handler (audio-handler.js)\<close>

text \<open>
  The two classes of the client are embedded as records with explicit state passing.
  Every call the code makes to the browser (console, alert, fetch, timers, event source,
  media recorder, tracks, audio context) or to a callback is appended to a \<open>trace\<close>
  kept in the state, in program order. Values the browser supplies (the clock, the
  outcome of a request, the event that fires next) are parameters of the functions.
\<close>

subsection \<open>Platform values\<close>

type_synonym blob = "nat list"

datatype effect =
    ConsoleError string
  | ConsoleLog string
  | Alert string
  | Uncaught string
  | UnhandledRejection string
  | Fetch string string
  | FetchAudio string blob int bool
  | PushState string
  | NewEventSource string
  | CloseEventSource
  | SetInterval nat nat
  | ClearInterval nat
  | SetTimeout nat
  | ShowScreen string
  | HandlerInitialize
  | HandlerStartRecording
  | HandlerStopRecording
  | RecorderStart
  | RecorderRequestData
  | RecorderStop
  | TrackStop nat
  | AudioContextClose
  | ChunkReady blob bool

text \<open>The outcome of a \<open>fetch\<close>: the promise rejects, or a response with a status code
  arrives; the flag says whether its body parses as JSON.\<close>

datatype fetch_outcome = NetworkError | Response nat bool

definition response_ok :: "nat \<Rightarrow> bool" where
  "response_ok code = (200 \<le> code \<and> code \<le> 299)"

subsection \<open>Numbers as text\<close>

definition digit_char :: "nat \<Rightarrow> char" where
  "digit_char d = (''0123456789'' ! (d mod 10))"

function show_nat :: "nat \<Rightarrow> string" where
  "show_nat n = (if n < 10 then [digit_char n] else show_nat (n div 10) @ [digit_char n])"
  by pat_completeness auto
termination
  by (relation "measure (\<lambda>n. n)") auto

declare show_nat.simps [simp del]

definition show_int :: "int \<Rightarrow> string" where
  "show_int i = (if i < 0 then CHR ''-'' # show_nat (nat (- i)) else show_nat (nat i))"

text \<open>\<open>String.prototype.padStart(2, '0')\<close>.\<close>

definition padStart2 :: "string \<Rightarrow> string" where
  "padStart2 s = replicate (2 - length s) CHR ''0'' @ s"

text \<open>The remainder operator of JavaScript takes the sign of the dividend.\<close>

definition js_rem :: "int \<Rightarrow> int \<Rightarrow> int" where
  "js_rem a b = (if a < 0 then - ((- a) mod \<bar>b\<bar>) else a mod \<bar>b\<bar>)"

subsection \<open>Update payloads\<close>

text \<open>The id of a transcript entry as \<open>===\<close> compares it: a number, a string, \<open>null\<close>, or
  no id at all (\<open>undefined\<close>).\<close>

datatype json_id = IdNum int | IdStr string | IdNull | IdMissing

record transcript_entry =
  te_id :: json_id
  te_speaker :: string
  te_text :: string
  te_timestamp :: "int option"
  te_is_question :: bool

record question =
  q_text :: "string option"
  q_asked_by :: "string option"
  q_timestamp :: "int option"

record answer =
  a_speaker :: string
  a_text :: string
  a_timestamp :: "int option"

record qa_pair =
  qa_question :: "question option"
  qa_answers :: "answer list option"
  qa_resolved :: bool

text \<open>Every field of an update is optional; \<open>None\<close> is an absent field.\<close>

record update =
  upd_error :: "string option"
  upd_status :: "string option"
  upd_transcript :: "transcript_entry list option"
  upd_qa_pairs :: "qa_pair list option"
  upd_total_speakers :: "int option"

text \<open>Truthiness as the conditions of \<open>handleUpdate\<close> test it: an absent field, the empty
  string and the number zero are falsy.\<close>

definition truthy_str :: "string option \<Rightarrow> bool" where
  "truthy_str v = (case v of None \<Rightarrow> False | Some s \<Rightarrow> s \<noteq> [])"

definition truthy_num :: "int option \<Rightarrow> bool" where
  "truthy_num v = (case v of None \<Rightarrow> False | Some n \<Rightarrow> n \<noteq> 0)"

text \<open>\<open>xs && xs.length > 0\<close>.\<close>

definition has_items :: "'a list option \<Rightarrow> bool" where
  "has_items v = (case v of None \<Rightarrow> False | Some xs \<Rightarrow> 0 < length xs)"

definition items :: "'a list option \<Rightarrow> 'a list" where
  "items v = (case v of None \<Rightarrow> [] | Some xs \<Rightarrow> xs)"

subsection \<open>The page\<close>

text \<open>A child element of a container. An element built from an entry or a QA pair carries
  the object it was rendered from; the HTML text inside it is not modelled.\<close>

datatype dom_node =
    EmptyState string
  | TranscriptDiv transcript_entry
  | QAItem qa_pair

record summary =
  sum_title :: string
  sum_duration :: string
  sum_entries :: nat
  sum_questions :: string

datatype ready_state = Connecting | Open | Closed

record event_source =
  es_url :: string
  readyState :: ready_state

datatype callback = PollCallback | DurationCallback

record meeting_app =
  meetingId :: "string option"
  meetingTitle :: string
  startTime :: "int option"
  durationInterval :: "nat option"
  eventSource :: "event_source option"
  pollingInterval :: "nat option"
  transcriptData :: "transcript_entry list"
  qaData :: "qa_pair list"
  isActive :: bool
  ui_screen :: string
  ui_titleInput :: string
  ui_activeTitle :: string
  ui_startBtn_disabled :: bool
  ui_startBtn_text :: string
  ui_stopBtn_disabled :: bool
  ui_stopBtn_text :: string
  ui_duration :: string
  ui_participantCount :: string
  ui_transcriptContainer :: "dom_node list"
  ui_qaContainer :: "dom_node list"
  ui_qaCount :: string
  ui_transcriptStatus :: string
  ui_downloadBtn_href :: string
  ui_meetingSummary :: "summary option"
  intervals :: "(nat \<times> callback \<times> nat) list"
  nextTimerId :: nat
  trace :: "effect list"

definition emit :: "effect \<Rightarrow> meeting_app \<Rightarrow> meeting_app" where
  "emit e st = st\<lparr>trace := trace st @ [e]\<rparr>"

text \<open>The state the constructor leaves (the page as served: both containers hold their
  empty-state element, the setup screen is shown).\<close>

definition new_app :: meeting_app where
  "new_app = \<lparr>meetingId = None, meetingTitle = [], startTime = None,
     durationInterval = None, eventSource = None, pollingInterval = None,
     transcriptData = [], qaData = [], isActive = False,
     ui_screen = ''setup'', ui_titleInput = ''Team Meeting'', ui_activeTitle = [],
     ui_startBtn_disabled = False, ui_startBtn_text = ''Start Recording'',
     ui_stopBtn_disabled = False, ui_stopBtn_text = ''End Meeting'',
     ui_duration = ''00:00:00'', ui_participantCount = [],
     ui_transcriptContainer = [EmptyState ''Waiting for speech...''],
     ui_qaContainer = [EmptyState ''No questions detected yet''],
     ui_qaCount = ''0'', ui_transcriptStatus = ''Listening...'',
     ui_downloadBtn_href = [], ui_meetingSummary = None,
     intervals = [], nextTimerId = 1, trace = []\<rparr>"

subsection \<open>Timers of the host\<close>

definition setInterval :: "callback \<Rightarrow> nat \<Rightarrow> meeting_app \<Rightarrow> nat \<times> meeting_app" where
  "setInterval cb ms st =
     (let t = nextTimerId st
      in (t, emit (SetInterval t ms)
               (st\<lparr>intervals := intervals st @ [(t, cb, ms)], nextTimerId := Suc t\<rparr>)))"

definition clearInterval :: "nat \<Rightarrow> meeting_app \<Rightarrow> meeting_app" where
  "clearInterval t st =
     emit (ClearInterval t) (st\<lparr>intervals := filter (\<lambda>(i, cb, ms). i \<noteq> t) (intervals st)\<rparr>)"

subsection \<open>Duration and screens\<close>

definition showScreen :: "string \<Rightarrow> meeting_app \<Rightarrow> meeting_app" where
  "showScreen screenName st = emit (ShowScreen screenName) (st\<lparr>ui_screen := screenName\<rparr>)"

definition stopDurationTimer :: "meeting_app \<Rightarrow> meeting_app" where
  "stopDurationTimer st =
     (case durationInterval st of
        None \<Rightarrow> st
      | Some t \<Rightarrow> (clearInterval t st)\<lparr>durationInterval := None\<rparr>)"

definition calculateDuration :: "int \<Rightarrow> meeting_app \<Rightarrow> string" where
  "calculateDuration now st =
     (case startTime st of
        None \<Rightarrow> ''00:00:00''
      | Some t0 \<Rightarrow>
          (let diff = (now - t0) div 1000;
               hours = diff div 3600;
               minutes = (js_rem diff 3600) div 60;
               seconds = js_rem diff 60
           in padStart2 (show_int hours) @ '':'' @ padStart2 (show_int minutes) @ '':''
              @ padStart2 (show_int seconds)))"

text \<open>The meeting id inside a template string; an id that is not set prints as \<open>null\<close>,
  the value the constructor and \<open>reset\<close> give it.\<close>

definition show_id :: "string option \<Rightarrow> string" where
  "show_id v = (case v of None \<Rightarrow> ''null'' | Some s \<Rightarrow> s)"

definition handleMeetingComplete :: "int \<Rightarrow> meeting_app \<Rightarrow> meeting_app" where
  "handleMeetingComplete now st =
     (let st1 = stopDurationTimer st;
          st2 = showScreen ''completion'' st1;
          st3 = st2\<lparr>ui_downloadBtn_href := ''/api/meetings/'' @ show_id (meetingId st2) @ ''/pdf''\<rparr>;
          duration = calculateDuration now st3
      in st3\<lparr>ui_meetingSummary :=
               Some \<lparr>sum_title = meetingTitle st3, sum_duration = duration,
                     sum_entries = length (transcriptData st3),
                     sum_questions = ui_qaCount st3\<rparr>\<rparr>)"

subsection \<open>The reconciler\<close>

fun is_empty_state :: "dom_node \<Rightarrow> bool" where
  "is_empty_state (EmptyState _) = True"
| "is_empty_state _ = False"

text \<open>\<open>querySelector('.empty-state')\<close> finds the first such element, which is removed.\<close>

fun remove_empty_state :: "dom_node list \<Rightarrow> dom_node list" where
  "remove_empty_state [] = []"
| "remove_empty_state (n # ns) = (if is_empty_state n then ns else n # remove_empty_state ns)"

text \<open>The entries and the QA pairs a container shows, in display order.\<close>

fun rendered_entries :: "dom_node list \<Rightarrow> transcript_entry list" where
  "rendered_entries [] = []"
| "rendered_entries (TranscriptDiv e # ns) = e # rendered_entries ns"
| "rendered_entries (_ # ns) = rendered_entries ns"

fun rendered_qa :: "dom_node list \<Rightarrow> qa_pair list" where
  "rendered_qa [] = []"
| "rendered_qa (QAItem q # ns) = q # rendered_qa ns"
| "rendered_qa (_ # ns) = rendered_qa ns"

text \<open>The body of the \<open>forEach\<close> of \<open>appendTranscript\<close>.\<close>

definition append_entry :: "meeting_app \<Rightarrow> transcript_entry \<Rightarrow> meeting_app" where
  "append_entry st entry =
     (if list_ex (\<lambda>e. te_id e = te_id entry) (transcriptData st) then st
      else st\<lparr>transcriptData := transcriptData st @ [entry],
              ui_transcriptContainer := ui_transcriptContainer st @ [TranscriptDiv entry]\<rparr>)"

definition appendTranscript :: "transcript_entry list \<Rightarrow> meeting_app \<Rightarrow> meeting_app" where
  "appendTranscript entries st =
     foldl append_entry
       (st\<lparr>ui_transcriptContainer := remove_empty_state (ui_transcriptContainer st)\<rparr>) entries"

definition updateQADisplay :: "qa_pair list \<Rightarrow> meeting_app \<Rightarrow> meeting_app" where
  "updateQADisplay qaPairs st =
     (if length qaPairs = 0
      then st\<lparr>ui_qaContainer := [EmptyState ''No questions detected yet''], ui_qaCount := ''0''\<rparr>
      else st\<lparr>ui_qaCount := show_nat (length qaPairs),
              ui_qaContainer := map QAItem qaPairs\<rparr>)"

definition participant_text :: "int \<Rightarrow> string" where
  "participant_text n = show_int n @ '' participant'' @ (if n \<noteq> 1 then ''s'' else '''')"

definition handleUpdate :: "int \<Rightarrow> update \<Rightarrow> meeting_app \<Rightarrow> meeting_app" where
  "handleUpdate now data st =
     (if truthy_str (upd_error data) then emit (ConsoleError ''Update error:'') st
      else if upd_status data = Some ''completed'' then handleMeetingComplete now st
      else
        (let st1 = (if has_items (upd_transcript data)
                    then appendTranscript (items (upd_transcript data)) st else st);
             st2 = (if has_items (upd_qa_pairs data)
                    then updateQADisplay (items (upd_qa_pairs data)) st1 else st1);
             st3 = (if truthy_num (upd_total_speakers data)
                    then st2\<lparr>ui_participantCount :=
                              participant_text (the (upd_total_speakers data))\<rparr>
                    else st2)
         in if has_items (upd_transcript data)
            then emit (SetTimeout 1000) (st3\<lparr>ui_transcriptStatus := ''Transcribing...''\<rparr>)
            else st3))"

text \<open>A run of the reconciler over the payloads of a session, each with the clock reading
  at its arrival.\<close>

definition handleUpdates :: "(int \<times> update) list \<Rightarrow> meeting_app \<Rightarrow> meeting_app" where
  "handleUpdates us st = foldl (\<lambda>s (now, data). handleUpdate now data s) st us"

subsection \<open>Chunk upload\<close>

text \<open>\<open>!this.meetingId\<close>: no id, or the empty string.\<close>

definition audio_url :: "meeting_app \<Rightarrow> string" where
  "audio_url st = ''/api/meetings/'' @ show_id (meetingId st) @ ''/audio''"

text \<open>\<open>uploadAudioChunk\<close> with the outcome of its request. \<open>Inl\<close> would be a rejected
  promise; the \<open>try\<close>/\<open>catch\<close> around the request turns a rejected \<open>fetch\<close> into a console
  message. The message of the \<open>catch\<close> branch is recorded straight after the request,
  although the browser delivers the outcome in a later turn of its event loop.\<close>

definition uploadAudioChunk ::
    "blob \<Rightarrow> bool \<Rightarrow> int \<Rightarrow> fetch_outcome \<Rightarrow> meeting_app \<Rightarrow> string + meeting_app" where
  "uploadAudioChunk blob isFinal now outcome st =
     (if \<not> truthy_str (meetingId st) then Inr st
      else
        (let st1 = emit (FetchAudio (audio_url st) blob now isFinal) st
         in case outcome of
              NetworkError \<Rightarrow> Inr (emit (ConsoleError ''Audio upload error:'') st1)
            | Response code body \<Rightarrow>
                if \<not> response_ok code
                then Inr (emit (ConsoleError ''Failed to upload audio chunk'') st1)
                else Inr st1))"

subsection \<open>Realtime updates: event source and polling\<close>

definition stream_url :: "meeting_app \<Rightarrow> string" where
  "stream_url st = ''/api/meetings/'' @ show_id (meetingId st) @ ''/stream''"

definition minutes_url :: "meeting_app \<Rightarrow> string" where
  "minutes_url st = ''/api/meetings/'' @ show_id (meetingId st) @ ''/minutes''"

definition startPolling :: "meeting_app \<Rightarrow> meeting_app" where
  "startPolling st =
     (let (t, st1) = setInterval PollCallback 3000 st in st1\<lparr>pollingInterval := Some t\<rparr>)"

text \<open>\<open>this.eventSource.close()\<close>: the call is recorded and the source, if there is one,
  becomes closed.\<close>

definition close_eventSource :: "meeting_app \<Rightarrow> meeting_app" where
  "close_eventSource st =
     emit CloseEventSource
       (st\<lparr>eventSource := map_option (\<lambda>es. es\<lparr>readyState := Closed\<rparr>) (eventSource st)\<rparr>)"

text \<open>\<open>connectSSE\<close>; the flag says whether the constructor of \<open>EventSource\<close> returns
  (otherwise it throws and the \<open>catch\<close> branch runs).\<close>

definition connectSSE :: "bool \<Rightarrow> meeting_app \<Rightarrow> meeting_app" where
  "connectSSE ctor_ok st =
     (if ctor_ok
      then emit (NewEventSource (stream_url st))
             (st\<lparr>eventSource := Some \<lparr>es_url = stream_url st, readyState = Connecting\<rparr>\<rparr>)
      else startPolling st)"

text \<open>The \<open>onmessage\<close> handler; \<open>None\<close> is a payload that \<open>JSON.parse\<close> rejects.\<close>

definition sse_onmessage :: "int \<Rightarrow> update option \<Rightarrow> meeting_app \<Rightarrow> meeting_app" where
  "sse_onmessage now payload st =
     (case payload of
        None \<Rightarrow> emit (Uncaught ''SyntaxError'') st
      | Some data \<Rightarrow> handleUpdate now data st)"

definition sse_onerror :: "meeting_app \<Rightarrow> meeting_app" where
  "sse_onerror st =
     startPolling (close_eventSource (emit (ConsoleLog ''SSE error, falling back to polling'') st))"

text \<open>\<open>startRealtimeUpdates\<close>; the first flag is \<open>typeof EventSource !== 'undefined'\<close>.\<close>

definition startRealtimeUpdates :: "bool \<Rightarrow> bool \<Rightarrow> meeting_app \<Rightarrow> meeting_app" where
  "startRealtimeUpdates has_es ctor_ok st =
     (if has_es then connectSSE ctor_ok st else startPolling st)"

text \<open>The outcome of one polling request: the request fails, or a response arrives whose
  body is an update (\<open>None\<close>: the body does not parse).\<close>

datatype poll_outcome = PollFailed | PollResponse nat "update option"

definition poll_tick :: "int \<Rightarrow> poll_outcome \<Rightarrow> meeting_app \<Rightarrow> meeting_app" where
  "poll_tick now outcome st =
     (let st1 = emit (Fetch ''GET'' (minutes_url st)) st
      in case outcome of
           PollFailed \<Rightarrow> emit (ConsoleError ''Polling error:'') st1
         | PollResponse code body \<Rightarrow>
             if response_ok code
             then (case body of
                     None \<Rightarrow> emit (ConsoleError ''Polling error:'') st1
                   | Some data \<Rightarrow> handleUpdate now data st1)
             else st1)"

text \<open>What the host can deliver to the sync client. An event source that is closed
  dispatches nothing, and an interval fires only while it is registered.\<close>

datatype sync_event =
    SSEOpened
  | SSEMessage "update option"
  | SSEError
  | PollTimer nat poll_outcome

definition es_live :: "meeting_app \<Rightarrow> bool" where
  "es_live st = (case eventSource st of None \<Rightarrow> False | Some es \<Rightarrow> readyState es \<noteq> Closed)"

definition poll_timer_active :: "nat \<Rightarrow> meeting_app \<Rightarrow> bool" where
  "poll_timer_active t st = list_ex (\<lambda>(i, cb, ms). i = t \<and> cb = PollCallback) (intervals st)"

fun sync_step :: "meeting_app \<Rightarrow> int \<times> sync_event \<Rightarrow> meeting_app" where
  "sync_step st (now, SSEOpened) =
     (if es_live st
      then st\<lparr>eventSource := map_option (\<lambda>es. es\<lparr>readyState := Open\<rparr>) (eventSource st)\<rparr>
      else st)"
| "sync_step st (now, SSEMessage payload) =
     (if es_live st then sse_onmessage now payload st else st)"
| "sync_step st (now, SSEError) = (if es_live st then sse_onerror st else st)"
| "sync_step st (now, PollTimer t outcome) =
     (if poll_timer_active t st then poll_tick now outcome st else st)"

definition sync_run :: "(int \<times> sync_event) list \<Rightarrow> meeting_app \<Rightarrow> meeting_app" where
  "sync_run evs st = foldl sync_step st evs"

subsection \<open>Starting, stopping and resetting a meeting\<close>

definition startDurationTimer :: "meeting_app \<Rightarrow> meeting_app" where
  "startDurationTimer st =
     (let (t, st1) = setInterval DurationCallback 1000 st in st1\<lparr>durationInterval := Some t\<rparr>)"

text \<open>The outcome of the request that creates the meeting: the request fails with a
  message, or a response arrives with a status and a body that either does not parse (with
  the parser's message) or parses and has the \<open>meeting_id\<close> field, if any.\<close>

datatype start_outcome = StartFailed string | StartResponse nat "string + string option"

definition start_failed :: "string \<Rightarrow> meeting_app \<Rightarrow> meeting_app" where
  "start_failed msg st =
     (emit (Alert (''Failed to start meeting: '' @ msg)) (emit (ConsoleError ''Start meeting error:'') st))
       \<lparr>ui_startBtn_disabled := False, ui_startBtn_text := ''Start Recording''\<rparr>"

text \<open>\<open>startMeeting\<close>. The audio handler is the other class; its calls are recorded, and
  \<open>audio_error\<close> is the message of the error \<open>initialize\<close> throws, if it throws.\<close>

definition startMeeting ::
    "int \<Rightarrow> string option \<Rightarrow> start_outcome \<Rightarrow> bool \<Rightarrow> bool \<Rightarrow> meeting_app \<Rightarrow> meeting_app" where
  "startMeeting now audio_error outcome has_es ctor_ok st =
     (let st1 = st\<lparr>meetingTitle := (if ui_titleInput st = [] then ''Untitled Meeting''
                                      else ui_titleInput st),
                   ui_startBtn_disabled := True, ui_startBtn_text := ''Initializing...''\<rparr>;
          st2 = emit HandlerInitialize st1
      in case audio_error of
           Some msg \<Rightarrow> start_failed msg st2
         | None \<Rightarrow>
             (let st3 = emit (Fetch ''POST'' ''/api/meetings/start'') st2
              in case outcome of
                   StartFailed msg \<Rightarrow> start_failed msg st3
                 | StartResponse code body \<Rightarrow>
                     if \<not> response_ok code then start_failed ''Failed to start meeting'' st3
                     else (case body of
                             Inl msg \<Rightarrow> start_failed msg st3
                           | Inr mid \<Rightarrow>
                               (let st4 = st3\<lparr>meetingId := mid, startTime := Some now\<rparr>;
                                    st5 = emit (PushState (''?meeting='' @ show_id mid)) st4;
                                    st6 = (showScreen ''meeting'' st5)
                                            \<lparr>ui_activeTitle := meetingTitle st5\<rparr>;
                                    st7 = startDurationTimer st6;
                                    st8 = emit HandlerStartRecording st7;
                                    st9 = startRealtimeUpdates has_es ctor_ok st8
                                in st9\<lparr>isActive := True\<rparr>))))"

definition stop_url :: "meeting_app \<Rightarrow> string" where
  "stop_url st = ''/api/meetings/'' @ show_id (meetingId st) @ ''/stop''"

definition stop_failed :: "meeting_app \<Rightarrow> meeting_app" where
  "stop_failed st =
     (emit (Alert ''Error finalizing meeting. Please try again.'')
        (emit (ConsoleError ''Stop meeting error:'') st))
       \<lparr>ui_stopBtn_disabled := False, ui_stopBtn_text := ''End Meeting''\<rparr>"

text \<open>\<open>stopMeeting\<close> is split where it awaits the stop request: the part that runs up
  to the request, and the part that runs with the outcome of the request.\<close>

definition stopMeeting_request :: "meeting_app \<Rightarrow> meeting_app" where
  "stopMeeting_request st =
     (let st1 = st\<lparr>ui_stopBtn_disabled := True, ui_stopBtn_text := ''Finalizing...''\<rparr>;
          st2 = emit HandlerStopRecording st1;
          st3 = (if eventSource st2 \<noteq> None then close_eventSource st2 else st2);
          st4 = (case pollingInterval st3 of
                   None \<Rightarrow> st3
                 | Some t \<Rightarrow> clearInterval t st3)
      in emit (Fetch ''POST'' (stop_url st4)) st4)"

definition stopMeeting_response :: "int \<Rightarrow> fetch_outcome \<Rightarrow> meeting_app \<Rightarrow> meeting_app" where
  "stopMeeting_response now outcome st =
     (let st1 = (case outcome of
                   NetworkError \<Rightarrow> stop_failed st
                 | Response code body \<Rightarrow>
                     if response_ok code
                     then (if body then handleMeetingComplete now st else stop_failed st)
                     else stop_failed st)
      in st1\<lparr>isActive := False\<rparr>)"

definition stopMeeting :: "int \<Rightarrow> fetch_outcome \<Rightarrow> meeting_app \<Rightarrow> meeting_app" where
  "stopMeeting now outcome st =
     (if \<not> isActive st then st
      else stopMeeting_response now outcome (stopMeeting_request st))"

definition reset :: "meeting_app \<Rightarrow> meeting_app" where
  "reset st =
     showScreen ''setup''
       (emit (PushState ''/'')
          (st\<lparr>meetingId := None, transcriptData := [], qaData := [], startTime := None,
              ui_transcriptContainer := [EmptyState ''Waiting for speech...''],
              ui_qaContainer := [EmptyState ''No questions detected yet''],
              ui_qaCount := ''0'', ui_titleInput := ''Team Meeting'',
              ui_stopBtn_disabled := False, ui_stopBtn_text := ''End Meeting'',
              ui_startBtn_disabled := False, ui_startBtn_text := ''Start Recording''\<rparr>))"

section \<open>The audio handler (audio-handler.js)\<close>

text \<open>
  The handler owns a \<open>MediaRecorder\<close>, the tracks of the microphone stream and an
  \<open>AudioContext\<close>. The recorder is part of the host: it gathers encoded bytes while it is
  recording, and it answers \<open>requestData()\<close> and \<open>stop()\<close> by queueing a task that fires
  \<open>dataavailable\<close> with the bytes gathered so far (and, for \<open>stop()\<close>, fires \<open>stop\<close> in the
  same task). The state below holds the fields of the class, then what the host holds for
  it: the queued recorder tasks, the pending 100 ms timeouts, the next timer id and the
  trace of calls.
\<close>

datatype recorder_state = Inactive | Recording | Paused

record media_recorder =
  rec_state :: recorder_state
  mimeType :: string
  gathered :: blob

datatype track_state = Live | Ended

datatype context_state = ContextRunning | ContextClosed

datatype recorder_task = FireDataAvailable | FireDataAvailableThenStop

datatype completion = Returned | Threw string

record audio_handler =
  mediaRecorder :: "media_recorder option"
  audioContext :: "context_state option"
  stream :: "track_state list option"
  chunks :: "blob list"
  isRecording :: bool
  chunkInterval :: nat
  chunkTimer :: "nat option"
  onChunkReady :: bool
  visualizerInterval :: "nat option"
  recorder_tasks :: "recorder_task list"
  grace_timeouts :: nat
  ah_nextTimerId :: nat
  ah_trace :: "effect list"

definition ah_emit :: "effect \<Rightarrow> audio_handler \<Rightarrow> audio_handler" where
  "ah_emit e st = st\<lparr>ah_trace := ah_trace st @ [e]\<rparr>"

definition new_handler :: audio_handler where
  "new_handler = \<lparr>mediaRecorder = None, audioContext = None, stream = None, chunks = [],
     isRecording = False, chunkInterval = 5000, chunkTimer = None, onChunkReady = False,
     visualizerInterval = None, recorder_tasks = [], grace_timeouts = 0,
     ah_nextTimerId = 1, ah_trace = []\<rparr>"

definition getSupportedMimeType :: "(string \<Rightarrow> bool) \<Rightarrow> string" where
  "getSupportedMimeType isTypeSupported =
     (case find isTypeSupported
             [''audio/webm;codecs=opus'', ''audio/webm'', ''audio/ogg;codecs=opus'',
              ''audio/ogg'', ''audio/mp4''] of
        Some t \<Rightarrow> t
      | None \<Rightarrow> ''audio/webm'')"

text \<open>\<open>initialize\<close>. \<open>media\<close> is what \<open>getUserMedia\<close> gives: an error message, or the
  number of tracks of the stream. The constructor of \<open>MediaRecorder\<close> throws for a type
  that is not supported (the text of its message is the browser's).\<close>

definition initialize ::
    "(string \<Rightarrow> bool) \<Rightarrow> string + nat \<Rightarrow> audio_handler \<Rightarrow> completion \<times> audio_handler" where
  "initialize isTypeSupported media st =
     (case media of
        Inl msg \<Rightarrow>
          (Threw (''Microphone access denied or not available: '' @ msg),
           ah_emit (ConsoleError ''Audio initialization failed:'') st)
      | Inr n \<Rightarrow>
          (let st1 = st\<lparr>stream := Some (replicate n Live), audioContext := Some ContextRunning\<rparr>;
               mime = getSupportedMimeType isTypeSupported
           in if \<not> isTypeSupported mime
              then (Threw (''Microphone access denied or not available: '' @ ''NotSupportedError''),
                    ah_emit (ConsoleError ''Audio initialization failed:'') st1)
              else (Returned,
                    st1\<lparr>mediaRecorder :=
                          Some \<lparr>rec_state = Inactive, mimeType = mime, gathered = []\<rparr>\<rparr>)))"

text \<open>\<open>_sendChunk\<close>. The blob is the concatenation of the buffered parts.\<close>

definition sendChunk :: "bool \<Rightarrow> audio_handler \<Rightarrow> audio_handler" where
  "sendChunk isFinal st =
     (if length (chunks st) = 0 then st
      else (case mediaRecorder st of
              None \<Rightarrow> ah_emit (Uncaught ''TypeError'') st
            | Some r \<Rightarrow>
                (let blob = concat (chunks st);
                     st1 = st\<lparr>chunks := []\<rparr>
                 in if onChunkReady st1 then ah_emit (ChunkReady blob isFinal) st1 else st1)))"

text \<open>The two handlers that \<open>initialize\<close> installs on the recorder.\<close>

definition ondataavailable :: "blob \<Rightarrow> audio_handler \<Rightarrow> audio_handler" where
  "ondataavailable data st =
     (if 0 < length data then st\<lparr>chunks := chunks st @ [data]\<rparr> else st)"

definition onstop :: "audio_handler \<Rightarrow> audio_handler" where
  "onstop st = sendChunk False st"

definition ah_setInterval :: "nat \<Rightarrow> audio_handler \<Rightarrow> nat \<times> audio_handler" where
  "ah_setInterval ms st =
     (let t = ah_nextTimerId st
      in (t, ah_emit (SetInterval t ms) (st\<lparr>ah_nextTimerId := Suc t\<rparr>)))"

text \<open>\<open>_startVisualization\<close>: only the timer is kept; the delay \<open>1000 / 30\<close> is 33 ms as an
  integer. The samples it forwards are not modelled.\<close>

definition startVisualization :: "audio_handler \<Rightarrow> audio_handler" where
  "startVisualization st =
     (let (t, st1) = ah_setInterval 33 st in st1\<lparr>visualizerInterval := Some t\<rparr>)"

text \<open>\<open>startRecording\<close>; \<open>start()\<close> of a recorder that is not inactive throws.\<close>

definition startRecording :: "audio_handler \<Rightarrow> completion \<times> audio_handler" where
  "startRecording st =
     (case mediaRecorder st of
        None \<Rightarrow> (Threw ''Audio not initialized. Call initialize() first.'', st)
      | Some r \<Rightarrow>
          (let st1 = st\<lparr>onChunkReady := True, isRecording := True, chunks := []\<rparr>
           in if rec_state r \<noteq> Inactive then (Threw ''InvalidStateError'', st1)
              else
                (let st2 = ah_emit RecorderStart
                             (st1\<lparr>mediaRecorder := Some (r\<lparr>rec_state := Recording, gathered := []\<rparr>)\<rparr>);
                     (t, st3) = ah_setInterval (chunkInterval st2) st2;
                     st4 = st3\<lparr>chunkTimer := Some t\<rparr>
                 in (Returned, startVisualization st4))))"

text \<open>The callback of the chunk timer, and the callback of the 100 ms timeout it sets.\<close>

definition chunkTimer_callback :: "audio_handler \<Rightarrow> audio_handler" where
  "chunkTimer_callback st =
     (case mediaRecorder st of
        None \<Rightarrow> ah_emit (Uncaught ''TypeError'') st
      | Some r \<Rightarrow>
          if rec_state r = Recording
          then ah_emit (SetTimeout 100)
                 ((ah_emit RecorderRequestData st)
                    \<lparr>recorder_tasks := recorder_tasks st @ [FireDataAvailable],
                     grace_timeouts := Suc (grace_timeouts st)\<rparr>)
          else st)"

definition graceTimeout_callback :: "audio_handler \<Rightarrow> audio_handler" where
  "graceTimeout_callback st = sendChunk False st"

definition stop_tracks :: "audio_handler \<Rightarrow> audio_handler" where
  "stop_tracks st =
     (case stream st of
        None \<Rightarrow> st
      | Some tracks \<Rightarrow>
          st\<lparr>stream := Some (map (\<lambda>t. Ended) tracks),
             ah_trace := ah_trace st @ map TrackStop [0..<length tracks]\<rparr>)"

text \<open>\<open>close()\<close> of an audio context that is already closed returns a promise rejected with
  \<open>InvalidStateError\<close>; nothing handles it.\<close>

definition close_context :: "audio_handler \<Rightarrow> audio_handler" where
  "close_context st =
     (case audioContext st of
        None \<Rightarrow> st
      | Some c \<Rightarrow>
          (let st1 = ah_emit AudioContextClose (st\<lparr>audioContext := Some ContextClosed\<rparr>)
           in if c = ContextClosed then ah_emit (UnhandledRejection ''InvalidStateError'') st1
              else st1))"

definition stop_recorder :: "audio_handler \<Rightarrow> audio_handler" where
  "stop_recorder st =
     (case mediaRecorder st of
        None \<Rightarrow> st
      | Some r \<Rightarrow>
          if rec_state r \<noteq> Inactive
          then ah_emit RecorderStop
                 (st\<lparr>mediaRecorder := Some (r\<lparr>rec_state := Inactive\<rparr>),
                     recorder_tasks := recorder_tasks st @ [FireDataAvailableThenStop]\<rparr>)
          else st)"

definition clear_chunkTimer :: "audio_handler \<Rightarrow> audio_handler" where
  "clear_chunkTimer st =
     (case chunkTimer st of
        None \<Rightarrow> st
      | Some t \<Rightarrow> (ah_emit (ClearInterval t) st)\<lparr>chunkTimer := None\<rparr>)"

definition clear_visualizerInterval :: "audio_handler \<Rightarrow> audio_handler" where
  "clear_visualizerInterval st =
     (case visualizerInterval st of
        None \<Rightarrow> st
      | Some t \<Rightarrow> (ah_emit (ClearInterval t) st)\<lparr>visualizerInterval := None\<rparr>)"

definition stopRecording :: "audio_handler \<Rightarrow> audio_handler" where
  "stopRecording st =
     (let st1 = st\<lparr>isRecording := False\<rparr>;
          st2 = clear_chunkTimer st1;
          st3 = clear_visualizerInterval st2;
          st4 = stop_recorder st3;
          st5 = stop_tracks st4;
          st6 = close_context st5
      in if 0 < length (chunks st6) then sendChunk True st6 else st6)"

text \<open>What the host does between two calls of the code: the encoder hands bytes to a
  recorder that is recording; the chunk timer fires while it is registered; a pending
  100 ms timeout fires; the oldest queued recorder task runs; the page calls
  \<open>stopRecording\<close>.\<close>

datatype audio_event =
    Encoded blob
  | ChunkTimerFires
  | GraceTimeoutFires
  | RecorderTaskRuns
  | StopRecordingCalled

definition take_gathered :: "audio_handler \<Rightarrow> blob \<times> audio_handler" where
  "take_gathered st =
     (case mediaRecorder st of
        None \<Rightarrow> ([], st)
      | Some r \<Rightarrow> (gathered r, st\<lparr>mediaRecorder := Some (r\<lparr>gathered := []\<rparr>)\<rparr>))"

definition run_recorder_task :: "recorder_task \<Rightarrow> audio_handler \<Rightarrow> audio_handler" where
  "run_recorder_task task st =
     (let (data, st1) = take_gathered st;
          st2 = ondataavailable data st1
      in case task of
           FireDataAvailable \<Rightarrow> st2
         | FireDataAvailableThenStop \<Rightarrow> onstop st2)"

fun audio_step :: "audio_handler \<Rightarrow> audio_event \<Rightarrow> audio_handler" where
  "audio_step st (Encoded bytes) =
     (case mediaRecorder st of
        None \<Rightarrow> st
      | Some r \<Rightarrow>
          if rec_state r = Recording
          then st\<lparr>mediaRecorder := Some (r\<lparr>gathered := gathered r @ bytes\<rparr>)\<rparr>
          else st)"
| "audio_step st ChunkTimerFires =
     (if chunkTimer st \<noteq> None then chunkTimer_callback st else st)"
| "audio_step st GraceTimeoutFires =
     (if 0 < grace_timeouts st
      then graceTimeout_callback (st\<lparr>grace_timeouts := grace_timeouts st - 1\<rparr>)
      else st)"
| "audio_step st RecorderTaskRuns =
     (case recorder_tasks st of
        [] \<Rightarrow> st
      | task # rest \<Rightarrow> run_recorder_task task (st\<lparr>recorder_tasks := rest\<rparr>))"
| "audio_step st StopRecordingCalled = stopRecording st"

definition audio_run :: "audio_event list \<Rightarrow> audio_handler \<Rightarrow> audio_handler" where
  "audio_run evs st = foldl audio_step st evs"

text \<open>The calls of the chunk consumer recorded in a trace, in order.\<close>

fun delivered :: "effect list \<Rightarrow> (blob \<times> bool) list" where
  "delivered [] = []"
| "delivered (ChunkReady b f # es) = (b, f) # delivered es"
| "delivered (_ # es) = delivered es"

text \<open>A handler that was initialized with one audio track and has started recording.\<close>

definition recording_handler :: audio_handler where
  "recording_handler =
     snd (startRecording (snd (initialize (\<lambda>t. t = ''audio/webm'') (Inr 1) new_handler)))"

section \<open>Runs, observations and sample inputs\<close>

text \<open>Notions the statements below are written in: runs of a component over a list of
  inputs, what is read off a trace, the conditions under which a payload field is applied,
  and concrete inputs for the examples.\<close>

definition appendTranscripts :: "transcript_entry list list \<Rightarrow> meeting_app \<Rightarrow> meeting_app" where
  "appendTranscripts batches st = foldl (\<lambda>s es. appendTranscript es s) st batches"

definition completed_payload :: "update \<Rightarrow> bool" where
  "completed_payload data = (\<not> truthy_str (upd_error data) \<and> upd_status data = Some ''completed'')"

definition completions :: "meeting_app \<Rightarrow> nat" where
  "completions st = count_list (trace st) (ShowScreen ''completion'')"

definition entry1 :: transcript_entry where
  "entry1 = \<lparr>te_id = IdNum 1, te_speaker = ''Ann'', te_text = ''Hello'',
             te_timestamp = Some 10, te_is_question = False\<rparr>"

definition entry2 :: transcript_entry where
  "entry2 = \<lparr>te_id = IdNum 2, te_speaker = ''Bob'', te_text = ''Who takes notes?'',
             te_timestamp = Some 12, te_is_question = True\<rparr>"

definition entry1_again :: transcript_entry where
  "entry1_again = \<lparr>te_id = IdNum 1, te_speaker = ''Ann'', te_text = ''Hello (resent)'',
             te_timestamp = Some 10, te_is_question = False\<rparr>"

definition qa1 :: qa_pair where
  "qa1 = \<lparr>qa_question = Some \<lparr>q_text = Some ''Who takes notes?'', q_asked_by = Some ''Bob'',
                                 q_timestamp = Some 12\<rparr>,
          qa_answers = Some [], qa_resolved = False\<rparr>"

definition qa2 :: qa_pair where
  "qa2 = \<lparr>qa_question = Some \<lparr>q_text = Some ''When is the release?'', q_asked_by = None,
                                 q_timestamp = None\<rparr>,
          qa_answers = Some [\<lparr>a_speaker = ''Ann'', a_text = ''Friday'', a_timestamp = Some 30\<rparr>],
          qa_resolved = True\<rparr>"

definition no_fields :: update where
  "no_fields = \<lparr>upd_error = None, upd_status = None, upd_transcript = None,
                upd_qa_pairs = None, upd_total_speakers = None\<rparr>"

definition started_app :: meeting_app where
  "started_app = startMeeting 1000 None (StartResponse 200 (Inr (Some ''m1''))) True True new_app"

definition applies_qa :: "update \<Rightarrow> bool" where
  "applies_qa data = (\<not> truthy_str (upd_error data) \<and> upd_status data \<noteq> Some ''completed''
                      \<and> has_items (upd_qa_pairs data))"

definition applies_speakers :: "update \<Rightarrow> bool" where
  "applies_speakers data = (\<not> truthy_str (upd_error data) \<and> upd_status data \<noteq> Some ''completed''
                      \<and> truthy_num (upd_total_speakers data))"

definition upload_failed :: "fetch_outcome \<Rightarrow> bool" where
  "upload_failed outcome =
     (case outcome of NetworkError \<Rightarrow> True | Response code body \<Rightarrow> \<not> response_ok code)"

definition upload_message :: "fetch_outcome \<Rightarrow> string" where
  "upload_message outcome =
     (case outcome of NetworkError \<Rightarrow> ''Audio upload error:''
      | Response code body \<Rightarrow> ''Failed to upload audio chunk'')"

definition stop_rejected :: "fetch_outcome \<Rightarrow> bool" where
  "stop_rejected outcome =
     (case outcome of NetworkError \<Rightarrow> True | Response code body \<Rightarrow> \<not> (response_ok code \<and> body))"

definition stop_rejected_app :: meeting_app where
  "stop_rejected_app = stopMeeting 9000 (Response 500 False) started_app"

definition closes :: "meeting_app \<Rightarrow> nat" where
  "closes st = count_list (trace st) CloseEventSource"

fun is_open_effect :: "effect \<Rightarrow> bool" where
  "is_open_effect (NewEventSource _) = True"
| "is_open_effect _ = False"

definition opens :: "meeting_app \<Rightarrow> nat" where
  "opens st = length (filter is_open_effect (trace st))"

fun is_poll_event :: "int \<times> sync_event \<Rightarrow> bool" where
  "is_poll_event (now, PollTimer t outcome) = True"
| "is_poll_event _ = False"

definition polling_only :: "nat \<Rightarrow> meeting_app \<Rightarrow> bool" where
  "polling_only t st =
     (\<not> es_live st \<and> pollingInterval st = Some t
      \<and> (t, PollCallback, 3000) \<in> set (intervals st) \<and> durationInterval st \<noteq> Some t)"

definition fallback_events :: "(int \<times> sync_event) list" where
  "fallback_events =
     [(3000, SSEMessage (Some (no_fields\<lparr>upd_total_speakers := Some 12\<rparr>))),
      (6000, PollTimer 2 (PollResponse 200 (Some (no_fields\<lparr>upd_total_speakers := Some 5\<rparr>)))),
      (7000, SSEError)]"

definition teardown :: "audio_handler \<Rightarrow> audio_handler" where
  "teardown st =
     close_context (stop_tracks (stop_recorder (clear_visualizerInterval
       (clear_chunkTimer (st\<lparr>isRecording := False\<rparr>)))))"

section \<open>The reconciler: transcript, QA list, speaker count, completion\<close>

lemma id_present_iff:
  "list_ex (\<lambda>x. te_id x = i) xs = (i \<in> set (map te_id xs))"
  by (induction xs) auto

lemma append_entry_data:
  "transcriptData (append_entry st e) =
     (if te_id e \<in> set (map te_id (transcriptData st)) then transcriptData st
      else transcriptData st @ [e])"
  by (simp add: append_entry_def id_present_iff)

lemma append_entry_distinct:
  "distinct (map te_id (transcriptData st)) \<Longrightarrow>
   distinct (map te_id (transcriptData (append_entry st e)))"
  by (simp add: append_entry_data)

lemma foldl_append_entry_distinct:
  "distinct (map te_id (transcriptData st)) \<Longrightarrow>
   distinct (map te_id (transcriptData (foldl append_entry st es)))"
  by (induction es arbitrary: st) (simp_all add: append_entry_distinct)

lemma foldl_append_entry_ids:
  "te_id ` set (transcriptData (foldl append_entry st es)) =
     te_id ` set (transcriptData st) \<union> te_id ` set es"
  by (induction es arbitrary: st) (auto simp: append_entry_data)

lemma foldl_append_entry_new:
  "\<exists>new. transcriptData (foldl append_entry st es) = transcriptData st @ new \<and> subseq new es"
proof (induction es arbitrary: st)
  case Nil
  then show ?case by simp
next
  case (Cons e es)
  obtain new where n: "transcriptData (foldl append_entry (append_entry st e) es)
      = transcriptData (append_entry st e) @ new" "subseq new es"
    using Cons.IH by blast
  show ?case
  proof (cases "te_id e \<in> set (map te_id (transcriptData st))")
    case True
    then show ?thesis using n by (auto simp: append_entry_data)
  next
    case False
    then have "transcriptData (foldl append_entry st (e # es)) = transcriptData st @ (e # new)"
      using n by (simp add: append_entry_data)
    moreover have "subseq (e # new) (e # es)" using n by simp
    ultimately show ?thesis by blast
  qed
qed

lemma rendered_entries_append [simp]:
  "rendered_entries (ns @ ms) = rendered_entries ns @ rendered_entries ms"
  by (induction ns rule: rendered_entries.induct) simp_all

lemma rendered_entries_remove_empty_state [simp]:
  "rendered_entries (remove_empty_state ns) = rendered_entries ns"
  by (induction ns rule: rendered_entries.induct) simp_all

lemma append_entry_rendered:
  "rendered_entries (ui_transcriptContainer st) = transcriptData st \<Longrightarrow>
   rendered_entries (ui_transcriptContainer (append_entry st e)) = transcriptData (append_entry st e)"
  by (simp add: append_entry_def)

lemma foldl_append_entry_rendered:
  "rendered_entries (ui_transcriptContainer st) = transcriptData st \<Longrightarrow>
   rendered_entries (ui_transcriptContainer (foldl append_entry st es))
     = transcriptData (foldl append_entry st es)"
  by (induction es arbitrary: st) (simp_all add: append_entry_rendered)

lemma foldl_append_entry_frame:
  "\<exists>td c. foldl append_entry st es = st\<lparr>transcriptData := td, ui_transcriptContainer := c\<rparr>"
proof (induction es arbitrary: st)
  case Nil
  have "st = st\<lparr>transcriptData := transcriptData st,
                 ui_transcriptContainer := ui_transcriptContainer st\<rparr>" by simp
  then show ?case by (metis foldl_Nil)
next
  case (Cons e es)
  obtain td c where a: "append_entry st e = st\<lparr>transcriptData := td, ui_transcriptContainer := c\<rparr>"
  proof (cases "list_ex (\<lambda>x. te_id x = te_id e) (transcriptData st)")
    case True
    then have "append_entry st e = st\<lparr>transcriptData := transcriptData st,
                 ui_transcriptContainer := ui_transcriptContainer st\<rparr>"
      by (simp add: append_entry_def)
    then show ?thesis using that by blast
  next
    case False
    then show ?thesis using that by (simp add: append_entry_def)
  qed
  obtain td' c' where b: "foldl append_entry (append_entry st e) es
      = (append_entry st e)\<lparr>transcriptData := td', ui_transcriptContainer := c'\<rparr>"
    using Cons.IH by blast
  have "foldl append_entry st (e # es) = st\<lparr>transcriptData := td', ui_transcriptContainer := c'\<rparr>"
    using a b by simp
  then show ?case by blast
qed

lemma appendTranscript_frame:
  "\<exists>td c. appendTranscript es st = st\<lparr>transcriptData := td, ui_transcriptContainer := c\<rparr>"
proof -
  obtain td c where
    "foldl append_entry (st\<lparr>ui_transcriptContainer := remove_empty_state (ui_transcriptContainer st)\<rparr>) es
      = (st\<lparr>ui_transcriptContainer := remove_empty_state (ui_transcriptContainer st)\<rparr>)
          \<lparr>transcriptData := td, ui_transcriptContainer := c\<rparr>"
    using foldl_append_entry_frame by blast
  then have "appendTranscript es st = st\<lparr>transcriptData := td, ui_transcriptContainer := c\<rparr>"
    by (simp add: appendTranscript_def)
  then show ?thesis by blast
qed

lemma appendTranscript_trace [simp]: "trace (appendTranscript es st) = trace st"
  using appendTranscript_frame [of es st] by auto

lemma appendTranscript_qaContainer [simp]:
  "ui_qaContainer (appendTranscript es st) = ui_qaContainer st"
  using appendTranscript_frame [of es st] by auto

lemma appendTranscript_qaCount [simp]: "ui_qaCount (appendTranscript es st) = ui_qaCount st"
  using appendTranscript_frame [of es st] by auto

lemma appendTranscript_qaData [simp]: "qaData (appendTranscript es st) = qaData st"
  using appendTranscript_frame [of es st] by auto

lemma appendTranscript_participantCount [simp]:
  "ui_participantCount (appendTranscript es st) = ui_participantCount st"
  using appendTranscript_frame [of es st] by auto

lemma appendTranscript_distinct:
  "distinct (map te_id (transcriptData st)) \<Longrightarrow>
   distinct (map te_id (transcriptData (appendTranscript es st)))"
  by (simp add: appendTranscript_def foldl_append_entry_distinct)

lemma appendTranscript_ids:
  "te_id ` set (transcriptData (appendTranscript es st)) =
     te_id ` set (transcriptData st) \<union> te_id ` set es"
  by (simp add: appendTranscript_def foldl_append_entry_ids)

lemma appendTranscript_new:
  "\<exists>new. transcriptData (appendTranscript es st) = transcriptData st @ new \<and> subseq new es"
  using foldl_append_entry_new
    [of "st\<lparr>ui_transcriptContainer := remove_empty_state (ui_transcriptContainer st)\<rparr>" es]
  by (simp add: appendTranscript_def)

lemma appendTranscript_rendered:
  "rendered_entries (ui_transcriptContainer st) = transcriptData st \<Longrightarrow>
   rendered_entries (ui_transcriptContainer (appendTranscript es st))
     = transcriptData (appendTranscript es st)"
  by (simp add: appendTranscript_def foldl_append_entry_rendered)

lemma appendTranscripts_distinct:
  "distinct (map te_id (transcriptData st)) \<Longrightarrow>
   distinct (map te_id (transcriptData (appendTranscripts batches st)))"
  unfolding appendTranscripts_def
  by (induction batches arbitrary: st) (simp_all add: appendTranscript_distinct)

lemma appendTranscripts_ids:
  "te_id ` set (transcriptData (appendTranscripts batches st)) =
     te_id ` set (transcriptData st) \<union> te_id ` set (concat batches)"
  unfolding appendTranscripts_def
  by (induction batches arbitrary: st) (simp_all add: appendTranscript_ids image_Un Un_assoc)

lemma appendTranscripts_new:
  "\<exists>new. transcriptData (appendTranscripts batches st) = transcriptData st @ new
         \<and> subseq new (concat batches)"
proof (induction batches arbitrary: st)
  case Nil
  then show ?case by (simp add: appendTranscripts_def)
next
  case (Cons es batches)
  obtain new1 where n1: "transcriptData (appendTranscript es st) = transcriptData st @ new1"
      "subseq new1 es"
    using appendTranscript_new by blast
  obtain new2 where n2: "transcriptData (appendTranscripts batches (appendTranscript es st))
      = transcriptData (appendTranscript es st) @ new2" "subseq new2 (concat batches)"
    using Cons.IH by blast
  have "transcriptData (appendTranscripts (es # batches) st) = transcriptData st @ (new1 @ new2)"
    using n1 n2 by (simp add: appendTranscripts_def)
  moreover have "subseq (new1 @ new2) (concat (es # batches))"
    using n1 n2 by (simp add: list_emb_append_mono)
  ultimately show ?case by blast
qed

lemma one_entry_per_id:
  "distinct (map te_id xs) \<Longrightarrow> i \<in> set (map te_id xs) \<Longrightarrow>
   length (filter (\<lambda>x. te_id x = i) xs) = 1"
proof (induction xs)
  case Nil
  then show ?case by simp
next
  case (Cons x xs)
  show ?case
  proof (cases "te_id x = i")
    case True
    then have "i \<notin> set (map te_id xs)" using Cons.prems by auto
    then have "filter (\<lambda>x. te_id x = i) xs = []" by (auto simp: filter_empty_conv)
    then show ?thesis using True by simp
  next
    case False
    then show ?thesis using Cons by auto
  qed
qed

lemma handleMeetingComplete_trace:
  "trace (handleMeetingComplete now st) =
     trace st @ (case durationInterval st of None \<Rightarrow> [] | Some t \<Rightarrow> [ClearInterval t])
       @ [ShowScreen ''completion'']"
  by (simp add: handleMeetingComplete_def stopDurationTimer_def showScreen_def
        clearInterval_def emit_def Let_def split: option.splits)

lemma handleMeetingComplete_transcriptData [simp]:
  "transcriptData (handleMeetingComplete now st) = transcriptData st"
  by (simp add: handleMeetingComplete_def stopDurationTimer_def showScreen_def
        clearInterval_def emit_def Let_def split: option.splits)

lemma handleMeetingComplete_transcriptContainer [simp]:
  "ui_transcriptContainer (handleMeetingComplete now st) = ui_transcriptContainer st"
  by (simp add: handleMeetingComplete_def stopDurationTimer_def showScreen_def
        clearInterval_def emit_def Let_def split: option.splits)

lemma handleMeetingComplete_qaContainer [simp]:
  "ui_qaContainer (handleMeetingComplete now st) = ui_qaContainer st"
  by (simp add: handleMeetingComplete_def stopDurationTimer_def showScreen_def
        clearInterval_def emit_def Let_def split: option.splits)

lemma handleMeetingComplete_qaCount [simp]:
  "ui_qaCount (handleMeetingComplete now st) = ui_qaCount st"
  by (simp add: handleMeetingComplete_def stopDurationTimer_def showScreen_def
        clearInterval_def emit_def Let_def split: option.splits)

lemma handleMeetingComplete_participantCount [simp]:
  "ui_participantCount (handleMeetingComplete now st) = ui_participantCount st"
  by (simp add: handleMeetingComplete_def stopDurationTimer_def showScreen_def
        clearInterval_def emit_def Let_def split: option.splits)

lemma handleMeetingComplete_completions:
  "completions (handleMeetingComplete now st) = Suc (completions st)"
  by (simp add: completions_def handleMeetingComplete_trace split: option.splits)

lemma updateQADisplay_frame [simp]:
  "trace (updateQADisplay qs st) = trace st"
  "transcriptData (updateQADisplay qs st) = transcriptData st"
  "ui_transcriptContainer (updateQADisplay qs st) = ui_transcriptContainer st"
  "ui_participantCount (updateQADisplay qs st) = ui_participantCount st"
  "qaData (updateQADisplay qs st) = qaData st"
  by (simp_all add: updateQADisplay_def)

lemma handleUpdate_completed:
  "completed_payload data \<Longrightarrow> handleUpdate now data st = handleMeetingComplete now st"
  by (simp add: handleUpdate_def completed_payload_def)

lemma handleUpdate_error:
  "truthy_str (upd_error data) \<Longrightarrow>
   handleUpdate now data st = emit (ConsoleError ''Update error:'') st"
  by (simp add: handleUpdate_def)

lemma handleUpdate_merge:
  "\<not> truthy_str (upd_error data) \<Longrightarrow> upd_status data \<noteq> Some ''completed'' \<Longrightarrow>
   handleUpdate now data st =
     (let st1 = (if has_items (upd_transcript data)
                 then appendTranscript (items (upd_transcript data)) st else st);
          st2 = (if has_items (upd_qa_pairs data)
                 then updateQADisplay (items (upd_qa_pairs data)) st1 else st1);
          st3 = (if truthy_num (upd_total_speakers data)
                 then st2\<lparr>ui_participantCount :=
                           participant_text (the (upd_total_speakers data))\<rparr>
                 else st2)
      in if has_items (upd_transcript data)
         then emit (SetTimeout 1000) (st3\<lparr>ui_transcriptStatus := ''Transcribing...''\<rparr>)
         else st3)"
  by (simp add: handleUpdate_def)

lemma handleUpdate_completions:
  "completions (handleUpdate now data st) =
     completions st + (if completed_payload data then 1 else 0)"
proof (cases "truthy_str (upd_error data)")
  case True
  then show ?thesis
    by (simp add: handleUpdate_error completed_payload_def completions_def emit_def)
next
  case noerr: False
  show ?thesis
  proof (cases "upd_status data = Some ''completed''")
    case True
    then have "completed_payload data" using noerr by (simp add: completed_payload_def)
    then show ?thesis
      by (simp add: handleUpdate_completed handleMeetingComplete_completions)
  next
    case False
    then have "\<not> completed_payload data" by (simp add: completed_payload_def)
    then show ?thesis using noerr False
      by (simp add: handleUpdate_merge completions_def emit_def Let_def)
  qed
qed

lemma handleUpdates_completions:
  "completions (handleUpdates us st) =
     completions st + length (filter (\<lambda>u. completed_payload (snd u)) us)"
proof (induction us arbitrary: st)
  case Nil
  then show ?case by (simp add: handleUpdates_def)
next
  case (Cons u us)
  obtain now data where u: "u = (now, data)" by (cases u)
  have "handleUpdates (u # us) st = handleUpdates us (handleUpdate now data st)"
    by (simp add: handleUpdates_def u)
  then show ?case using Cons.IH [of "handleUpdate now data st"]
    by (simp add: handleUpdate_completions u)
qed

lemma handleUpdate_transcript_inv:
  assumes "distinct (map te_id (transcriptData st))"
      and "rendered_entries (ui_transcriptContainer st) = transcriptData st"
  shows "distinct (map te_id (transcriptData (handleUpdate now data st)))
       \<and> rendered_entries (ui_transcriptContainer (handleUpdate now data st))
           = transcriptData (handleUpdate now data st)"
proof (cases "truthy_str (upd_error data)")
  case True
  then show ?thesis using assms by (simp add: handleUpdate_error emit_def)
next
  case noerr: False
  show ?thesis
  proof (cases "upd_status data = Some ''completed''")
    case True
    then show ?thesis using assms noerr by (simp add: handleUpdate_def)
  next
    case False
    then show ?thesis using assms noerr
      by (simp add: handleUpdate_merge emit_def Let_def appendTranscript_distinct
            appendTranscript_rendered)
  qed
qed

lemma handleUpdates_transcript_inv:
  "distinct (map te_id (transcriptData st)) \<Longrightarrow>
   rendered_entries (ui_transcriptContainer st) = transcriptData st \<Longrightarrow>
   distinct (map te_id (transcriptData (handleUpdates us st)))
     \<and> rendered_entries (ui_transcriptContainer (handleUpdates us st))
         = transcriptData (handleUpdates us st)"
proof (induction us arbitrary: st)
  case Nil
  then show ?case by (simp add: handleUpdates_def)
next
  case (Cons u us)
  obtain now data where u: "u = (now, data)" by (cases u)
  have step: "handleUpdates (u # us) st = handleUpdates us (handleUpdate now data st)"
    by (simp add: handleUpdates_def u)
  show ?case
    unfolding step
    using Cons.IH [of "handleUpdate now data st"] handleUpdate_transcript_inv [OF Cons.prems]
    by blast
qed

lemma started_app_eval:
  "started_app = new_app\<lparr>meetingId := Some ''m1'', meetingTitle := ''Team Meeting'',
      startTime := Some 1000, durationInterval := Some 1,
      eventSource := Some \<lparr>es_url = ''/api/meetings/m1/stream'', readyState = Connecting\<rparr>,
      isActive := True, ui_screen := ''meeting'', ui_activeTitle := ''Team Meeting'',
      ui_startBtn_disabled := True, ui_startBtn_text := ''Initializing...'',
      intervals := [(1, DurationCallback, 1000)], nextTimerId := 2,
      trace := [HandlerInitialize, Fetch ''POST'' ''/api/meetings/start'',
                PushState ''?meeting=m1'', ShowScreen ''meeting'', SetInterval 1 1000,
                HandlerStartRecording, NewEventSource ''/api/meetings/m1/stream'']\<rparr>"
  by (simp add: started_app_def startMeeting_def new_app_def emit_def response_ok_def
        showScreen_def startDurationTimer_def setInterval_def startRealtimeUpdates_def
        connectSSE_def stream_url_def show_id_def Let_def)

lemma rendered_qa_map [simp]: "rendered_qa (map QAItem qs) = qs"
  by (induction qs) simp_all

lemma handleUpdate_qaData: "qaData (handleUpdate now data st) = qaData st"
  by (simp add: handleUpdate_def handleMeetingComplete_def stopDurationTimer_def
        showScreen_def clearInterval_def emit_def Let_def split: option.splits)

text \<open>
  Claim C4. From a transcript list whose ids are pairwise different, any sequence of
  transcript batches leaves a list whose ids are pairwise different; the old list is a
  prefix of the new one and what follows it is a subsequence of the arriving entries, in
  arrival order; the ids held afterwards are the old ones and the arriving ones; an entry
  whose id is already held changes nothing; the same entry applied twice is held once.
  Over any run of payloads from the constructor's state the ids stay pairwise different and
  the transcript container shows exactly the held entries.
\<close>

theorem transcript_ids_unique:
  assumes "distinct (map te_id (transcriptData st))"
  shows "distinct (map te_id (transcriptData (appendTranscripts batches st)))
       \<and> (\<exists>new. transcriptData (appendTranscripts batches st) = transcriptData st @ new
                 \<and> subseq new (concat batches))
       \<and> te_id ` set (transcriptData (appendTranscripts batches st))
           = te_id ` set (transcriptData st) \<union> te_id ` set (concat batches)
       \<and> (te_id e \<in> te_id ` set (transcriptData st)
            \<longrightarrow> transcriptData (appendTranscript [e] st) = transcriptData st)
       \<and> length (filter (\<lambda>x. te_id x = te_id e)
                   (transcriptData (appendTranscripts [[e], [e]] st))) = 1
       \<and> distinct (map te_id (transcriptData (handleUpdates us new_app)))
       \<and> rendered_entries (ui_transcriptContainer (handleUpdates us new_app))
           = transcriptData (handleUpdates us new_app)"
proof -
  have present: "te_id e \<in> te_id ` set (transcriptData st)
            \<longrightarrow> transcriptData (appendTranscript [e] st) = transcriptData st"
    by (simp add: appendTranscript_def append_entry_data)
  have "distinct (map te_id (transcriptData (appendTranscripts [[e], [e]] st)))"
    using assms by (rule appendTranscripts_distinct)
  moreover have "te_id e \<in> set (map te_id (transcriptData (appendTranscripts [[e], [e]] st)))"
    using appendTranscripts_ids [of "[[e], [e]]" st] by simp
  ultimately have once: "length (filter (\<lambda>x. te_id x = te_id e)
                   (transcriptData (appendTranscripts [[e], [e]] st))) = 1"
    by (rule one_entry_per_id)
  have run: "distinct (map te_id (transcriptData (handleUpdates us new_app)))
       \<and> rendered_entries (ui_transcriptContainer (handleUpdates us new_app))
           = transcriptData (handleUpdates us new_app)"
    by (rule handleUpdates_transcript_inv) (simp_all add: new_app_def)
  show ?thesis
    using appendTranscripts_distinct [OF assms, of batches] appendTranscripts_new [of batches st]
      appendTranscripts_ids [of batches st] present once run
    by blast
qed

text \<open>Witness for C4: two batches from the constructor's state, the second resending id 1
  and id 2.\<close>

theorem transcript_ids_unique_witness:
  "distinct (map te_id (transcriptData new_app))
   \<and> transcriptData (appendTranscripts [[entry1, entry2], [entry1_again, entry2]] new_app)
       = [entry1, entry2]
   \<and> distinct (map te_id (transcriptData
        (appendTranscripts [[entry1, entry2], [entry1_again, entry2]] new_app)))
   \<and> length (filter (\<lambda>x. te_id x = te_id entry1)
        (transcriptData (appendTranscripts [[entry1], [entry1]] new_app))) = 1"
proof -
  have d: "distinct (map te_id (transcriptData new_app))" by (simp add: new_app_def)
  have ev: "transcriptData (appendTranscripts [[entry1, entry2], [entry1_again, entry2]] new_app)
       = [entry1, entry2]"
    by (simp add: appendTranscripts_def appendTranscript_def append_entry_def new_app_def
          entry1_def entry2_def entry1_again_def)
  show ?thesis
    using d ev
      transcript_ids_unique [OF d, where batches = "[[entry1, entry2], [entry1_again, entry2]]"
        and e = entry1 and us = "[]"]
    by simp
qed

text \<open>
  Counterexample to C2 as stated: in a started meeting, two consecutive payloads with
  status "completed" run the completion handling twice.
\<close>

theorem completed_twice_counterexample:
  "completions started_app = 0
   \<and> completions (handleUpdates
        [(2000, no_fields\<lparr>upd_status := Some ''completed''\<rparr>),
         (5000, no_fields\<lparr>upd_status := Some ''completed''\<rparr>)] started_app) = 2"
proof -
  have a: "completions started_app = 0"
    by (simp add: completions_def started_app_eval new_app_def)
  have "completions (handleUpdates
        [(2000, no_fields\<lparr>upd_status := Some ''completed''\<rparr>),
         (5000, no_fields\<lparr>upd_status := Some ''completed''\<rparr>)] started_app)
      = completions started_app + 2"
    by (simp add: handleUpdates_completions completed_payload_def no_fields_def truthy_str_def)
  then show ?thesis using a by simp
qed

text \<open>
  Claim C2, amended. Over any run of payloads the completion handling runs once for each
  payload that has no error and status "completed": \<open>n\<close> such payloads run it \<open>n\<close> times.
\<close>

theorem completion_per_completed_payload:
  "completions (handleUpdates us st) =
     completions st + length (filter (\<lambda>u. completed_payload (snd u)) us)"
  by (rule handleUpdates_completions)

text \<open>
  Counterexample to C3 as stated: payload A carries one QA pair, payload B carries
  \<open>qa_pairs = []\<close>; after both the page still shows A's pair, not B's empty list.
\<close>

theorem qa_empty_list_counterexample:
  "upd_qa_pairs (no_fields\<lparr>upd_qa_pairs := Some []\<rparr>) = Some []
   \<and> rendered_qa (ui_qaContainer (handleUpdates
        [(2000, no_fields\<lparr>upd_qa_pairs := Some [qa1]\<rparr>),
         (5000, no_fields\<lparr>upd_qa_pairs := Some []\<rparr>)] started_app)) = [qa1]"
  by (simp add: handleUpdates_def handleUpdate_def no_fields_def truthy_str_def truthy_num_def
        has_items_def items_def updateQADisplay_def started_app_eval new_app_def)

text \<open>
  Claim C3, amended. When payload B has no error, a status other than "completed" and a
  non-empty \<open>qa_pairs\<close>, then after A and B the QA container holds exactly the elements of
  B's list, in order, and the count shows its length, whatever A was. Any other payload
  leaves the QA container and the count as they were. The field \<open>qaData\<close> is never written
  by an update.
\<close>

theorem qa_full_replace:
  "(applies_qa B \<longrightarrow>
      ui_qaContainer (handleUpdate tb B (handleUpdate ta A st)) = map QAItem (items (upd_qa_pairs B))
      \<and> rendered_qa (ui_qaContainer (handleUpdate tb B (handleUpdate ta A st)))
          = items (upd_qa_pairs B)
      \<and> ui_qaCount (handleUpdate tb B (handleUpdate ta A st))
          = show_nat (length (items (upd_qa_pairs B))))
   \<and> (\<not> applies_qa B \<longrightarrow>
      ui_qaContainer (handleUpdate tb B st) = ui_qaContainer st
      \<and> ui_qaCount (handleUpdate tb B st) = ui_qaCount st)
   \<and> qaData (handleUpdate tb B st) = qaData st"
proof -
  have yes: "ui_qaContainer (handleUpdate t B' s') = map QAItem (items (upd_qa_pairs B'))
      \<and> ui_qaCount (handleUpdate t B' s') = show_nat (length (items (upd_qa_pairs B')))"
    if "applies_qa B'" for t s' B'
    using that
    by (simp add: applies_qa_def handleUpdate_merge Let_def emit_def updateQADisplay_def
          has_items_def items_def split: option.splits)
  have no: "ui_qaContainer (handleUpdate tb B st) = ui_qaContainer st
      \<and> ui_qaCount (handleUpdate tb B st) = ui_qaCount st" if "\<not> applies_qa B"
  proof (cases "truthy_str (upd_error B)")
    case True
    then show ?thesis by (simp add: handleUpdate_error emit_def)
  next
    case noerr: False
    show ?thesis
    proof (cases "upd_status B = Some ''completed''")
      case True
      then show ?thesis using noerr by (simp add: handleUpdate_def)
    next
      case False
      then have "\<not> has_items (upd_qa_pairs B)" using that noerr by (simp add: applies_qa_def)
      then show ?thesis using noerr False by (simp add: handleUpdate_merge Let_def emit_def)
    qed
  qed
  show ?thesis using yes [of B tb "handleUpdate ta A st"] no handleUpdate_qaData [of tb B st]
    by simp
qed

lemma participant_text_1: "participant_text 1 = ''1 participant''"
  by code_simp

lemma participant_text_5: "participant_text 5 = ''5 participants''"
  by (simp add: participant_text_def show_int_def show_nat.simps [of 5] digit_char_def)

lemma participant_text_12: "participant_text 12 = ''12 participants''"
  by (simp add: participant_text_def show_int_def show_nat.simps [of 12]
        show_nat.simps [of "Suc 0"] digit_char_def)

text \<open>
  Counterexample to C6 as stated: a payload with status "completed" and
  \<open>total_speakers = 5\<close> leaves the participant count empty.
\<close>

theorem speaker_count_completed_counterexample:
  "ui_participantCount started_app = []
   \<and> ui_participantCount (handleUpdate 2000
        (no_fields\<lparr>upd_status := Some ''completed'', upd_total_speakers := Some 5\<rparr>)
        started_app) = []
   \<and> participant_text 5 = ''5 participants''"
  by (simp add: participant_text_5 handleUpdate_def no_fields_def truthy_str_def
        started_app_eval new_app_def)

text \<open>
  Claim C6, amended. A payload with no error, a status other than "completed" and a
  non-zero \<open>total_speakers\<close> sets the participant count to the text of that number,
  whatever \<open>transcript\<close> and \<open>qa_pairs\<close> it carries. A payload with an error, with status
  "completed" or without \<open>total_speakers\<close> leaves the participant count as it was.
\<close>

theorem speaker_count_last_value:
  "(applies_speakers data \<longrightarrow>
      ui_participantCount
        (handleUpdate now (data\<lparr>upd_transcript := tr, upd_qa_pairs := qa\<rparr>) st)
        = participant_text (the (upd_total_speakers data)))
   \<and> (truthy_str (upd_error data) \<or> upd_status data = Some ''completed''
        \<or> upd_total_speakers data = None
      \<longrightarrow> ui_participantCount (handleUpdate now data st) = ui_participantCount st)"
proof -
  have yes: "ui_participantCount
        (handleUpdate now (data\<lparr>upd_transcript := tr, upd_qa_pairs := qa\<rparr>) st)
        = participant_text (the (upd_total_speakers data))" if "applies_speakers data"
    using that
    by (simp add: applies_speakers_def handleUpdate_merge Let_def emit_def)
  have no: "ui_participantCount (handleUpdate now data st) = ui_participantCount st"
    if "truthy_str (upd_error data) \<or> upd_status data = Some ''completed''
        \<or> upd_total_speakers data = None"
  proof (cases "truthy_str (upd_error data)")
    case True
    then show ?thesis by (simp add: handleUpdate_error emit_def)
  next
    case noerr: False
    show ?thesis
    proof (cases "upd_status data = Some ''completed''")
      case True
      then show ?thesis using noerr by (simp add: handleUpdate_def)
    next
      case False
      then have "\<not> truthy_num (upd_total_speakers data)"
        using that noerr by (simp add: truthy_num_def)
      then show ?thesis using noerr False by (simp add: handleUpdate_merge Let_def emit_def)
    qed
  qed
  show ?thesis using yes no by blast
qed

text \<open>Witness for C6: twelve speakers next to a transcript and a QA list; a completed
  payload.\<close>

theorem speaker_count_last_value_witness:
  "applies_speakers (no_fields\<lparr>upd_total_speakers := Some 12\<rparr>)
   \<and> ui_participantCount
        (handleUpdate 2000 (no_fields\<lparr>upd_total_speakers := Some 12,
            upd_transcript := Some [entry1], upd_qa_pairs := Some [qa1]\<rparr>) started_app)
        = ''12 participants''
   \<and> upd_status (no_fields\<lparr>upd_status := Some ''completed''\<rparr>) = Some ''completed''
   \<and> ui_participantCount
        (handleUpdate 2000 (no_fields\<lparr>upd_status := Some ''completed''\<rparr>) started_app)
        = ui_participantCount started_app"
proof -
  have a: "applies_speakers (no_fields\<lparr>upd_total_speakers := Some 12\<rparr>)"
    by (simp add: applies_speakers_def no_fields_def truthy_str_def truthy_num_def)
  have b: "upd_status (no_fields\<lparr>upd_status := Some ''completed''\<rparr>) = Some ''completed''"
    by simp
  show ?thesis
    using a b
      speaker_count_last_value [where data = "no_fields\<lparr>upd_total_speakers := Some 12\<rparr>"
        and now = 2000 and tr = "Some [entry1]" and qa = "Some [qa1]" and st = started_app]
      speaker_count_last_value [where data = "no_fields\<lparr>upd_status := Some ''completed''\<rparr>"
        and now = 2000 and tr = None and qa = None and st = started_app]
    by (simp add: participant_text_12 no_fields_def)
qed

text \<open>Witness for C3: B replaces A's list; a payload with an error changes nothing.\<close>

theorem qa_full_replace_witness:
  "applies_qa (no_fields\<lparr>upd_qa_pairs := Some [qa2]\<rparr>)
   \<and> ui_qaContainer (handleUpdate 5000 (no_fields\<lparr>upd_qa_pairs := Some [qa2]\<rparr>)
        (handleUpdate 2000 (no_fields\<lparr>upd_qa_pairs := Some [qa1]\<rparr>) started_app))
       = [QAItem qa2]
   \<and> \<not> applies_qa (no_fields\<lparr>upd_error := Some ''boom'', upd_qa_pairs := Some [qa2]\<rparr>)
   \<and> ui_qaContainer (handleUpdate 5000
        (no_fields\<lparr>upd_error := Some ''boom'', upd_qa_pairs := Some [qa2]\<rparr>) started_app)
       = ui_qaContainer started_app"
proof -
  have a: "applies_qa (no_fields\<lparr>upd_qa_pairs := Some [qa2]\<rparr>)"
    by (simp add: applies_qa_def no_fields_def truthy_str_def has_items_def)
  have b: "\<not> applies_qa (no_fields\<lparr>upd_error := Some ''boom'', upd_qa_pairs := Some [qa2]\<rparr>)"
    by (simp add: applies_qa_def no_fields_def truthy_str_def)
  show ?thesis
    using a b
      qa_full_replace [where B = "no_fields\<lparr>upd_qa_pairs := Some [qa2]\<rparr>" and tb = 5000
        and ta = 2000 and A = "no_fields\<lparr>upd_qa_pairs := Some [qa1]\<rparr>" and st = started_app]
      qa_full_replace [where B = "no_fields\<lparr>upd_error := Some ''boom'', upd_qa_pairs := Some [qa2]\<rparr>"
        and tb = 5000 and ta = 2000 and A = no_fields and st = started_app]
    by (simp add: items_def)
qed

section \<open>Chunk upload\<close>

text \<open>
  Claim C9. The upload never throws. When a meeting id is set and the transmission fails (the
  request is rejected, or the response is not 2xx), the upload makes the one request and
  writes one console message, and nothing else: no second request, no alert, and no field
  of the application changes, so the chunk is kept nowhere for a later attempt.
\<close>

theorem upload_failure_logged_only:
  "(\<exists>st'. uploadAudioChunk blob isFinal now outcome st = Inr st')
   \<and> (truthy_str (meetingId st) \<and> upload_failed outcome \<longrightarrow>
        uploadAudioChunk blob isFinal now outcome st =
          Inr (st\<lparr>trace := trace st @ [FetchAudio (audio_url st) blob now isFinal,
                                        ConsoleError (upload_message outcome)]\<rparr>))"
  by (cases outcome)
     (simp_all add: uploadAudioChunk_def upload_failed_def upload_message_def emit_def Let_def)

text \<open>Witness for C9: a 503 response and a rejected request in a started meeting.\<close>

theorem upload_failure_logged_only_witness:
  "truthy_str (meetingId started_app) \<and> upload_failed (Response 503 False)
   \<and> upload_failed NetworkError
   \<and> uploadAudioChunk [7, 7, 7] False 4000 (Response 503 False) started_app =
        Inr (started_app\<lparr>trace := trace started_app @
               [FetchAudio ''/api/meetings/m1/audio'' [7, 7, 7] 4000 False,
                ConsoleError ''Failed to upload audio chunk'']\<rparr>)
   \<and> uploadAudioChunk [7, 7, 7] True 4000 NetworkError started_app =
        Inr (started_app\<lparr>trace := trace started_app @
               [FetchAudio ''/api/meetings/m1/audio'' [7, 7, 7] 4000 True,
                ConsoleError ''Audio upload error:'']\<rparr>)"
proof -
  have a: "truthy_str (meetingId started_app)"
    by (simp add: started_app_eval new_app_def truthy_str_def)
  have b: "upload_failed (Response 503 False)" "upload_failed NetworkError"
    by (simp_all add: upload_failed_def response_ok_def)
  have u: "audio_url started_app = ''/api/meetings/m1/audio''"
    by (simp add: audio_url_def show_id_def started_app_eval new_app_def)
  show ?thesis
    using a b
      upload_failure_logged_only [where st = started_app and outcome = "Response 503 False"
        and blob = "[7, 7, 7]" and isFinal = False and now = 4000]
      upload_failure_logged_only [where st = started_app and outcome = NetworkError
        and blob = "[7, 7, 7]" and isFinal = True and now = 4000]
    by (simp add: u upload_message_def)
qed

text \<open>
  Claim C10. Without a meeting id the upload returns at once: the state, with its trace of
  requests and console messages, is unchanged, and the call does not throw.
\<close>

theorem upload_without_meeting:
  "meetingId st = None \<Longrightarrow> uploadAudioChunk blob isFinal now outcome st = Inr st"
  by (simp add: uploadAudioChunk_def truthy_str_def)

text \<open>Witness for C10: an upload before any meeting was started.\<close>

theorem upload_without_meeting_witness:
  "meetingId new_app = None
   \<and> uploadAudioChunk [7, 7, 7] True 4000 (Response 200 True) new_app = Inr new_app
   \<and> trace new_app = []"
proof -
  have a: "meetingId new_app = None" by (simp add: new_app_def)
  show ?thesis
    using a upload_without_meeting [OF a, where blob = "[7, 7, 7]" and isFinal = True
        and now = 4000 and outcome = "Response 200 True"]
    by (simp add: new_app_def)
qed

section \<open>Stopping a meeting\<close>

lemma stopMeeting_inactive: "\<not> isActive st \<Longrightarrow> stopMeeting now outcome st = st"
  by (simp add: stopMeeting_def)

lemma stopMeeting_clears_isActive: "\<not> isActive (stopMeeting now outcome st)"
  by (simp add: stopMeeting_def stopMeeting_response_def Let_def)

lemma stopMeeting_twice:
  "stopMeeting now' outcome' (stopMeeting now outcome st) = stopMeeting now outcome st"
  by (rule stopMeeting_inactive) (rule stopMeeting_clears_isActive)

lemma stop_failed_frame:
  "ui_stopBtn_disabled (stop_failed st) = False"
  "ui_stopBtn_text (stop_failed st) = ''End Meeting''"
  "trace (stop_failed st) = trace st @ [ConsoleError ''Stop meeting error:'',
       Alert ''Error finalizing meeting. Please try again.'']"
  by (simp_all add: stop_failed_def emit_def)

lemma stopMeeting_response_rejected:
  "stop_rejected outcome \<Longrightarrow>
   stopMeeting_response now outcome st = (stop_failed st)\<lparr>isActive := False\<rparr>"
  by (cases outcome) (auto simp: stopMeeting_response_def stop_rejected_def)

text \<open>
  Claim C8 fails on the code. When the stop request of an active meeting is rejected, the
  alert asks the user to try again and the stop button is enabled again, but \<open>isActive\<close> is
  cleared on this path too, so every later \<open>stopMeeting\<close> returns at its first line: it sends
  no request and changes nothing.
\<close>

theorem stop_retry_is_noop:
  assumes "isActive st" and "stop_rejected outcome"
  shows "trace (stopMeeting now outcome st) = trace (stopMeeting_request st) @
           [ConsoleError ''Stop meeting error:'', Alert ''Error finalizing meeting. Please try again.'']
       \<and> \<not> ui_stopBtn_disabled (stopMeeting now outcome st)
       \<and> ui_stopBtn_text (stopMeeting now outcome st) = ''End Meeting''
       \<and> \<not> isActive (stopMeeting now outcome st)
       \<and> stopMeeting now' outcome' (stopMeeting now outcome st) = stopMeeting now outcome st"
proof -
  have "stopMeeting now outcome st = (stop_failed (stopMeeting_request st))\<lparr>isActive := False\<rparr>"
    using assms by (simp add: stopMeeting_def stopMeeting_response_rejected)
  then show ?thesis
    by (simp add: stop_failed_frame stopMeeting_inactive)
qed

lemma stop_rejected_app_eval:
  "stop_rejected_app = started_app\<lparr>
      eventSource := Some \<lparr>es_url = ''/api/meetings/m1/stream'', readyState = Closed\<rparr>,
      isActive := False, ui_stopBtn_disabled := False, ui_stopBtn_text := ''End Meeting'',
      trace := trace started_app @ [HandlerStopRecording, CloseEventSource,
         Fetch ''POST'' ''/api/meetings/m1/stop'', ConsoleError ''Stop meeting error:'',
         Alert ''Error finalizing meeting. Please try again.'']\<rparr>"
  by (simp add: stop_rejected_app_def stopMeeting_def stopMeeting_request_def
        stopMeeting_response_def stop_failed_def close_eventSource_def stop_url_def show_id_def
        response_ok_def emit_def started_app_eval new_app_def Let_def)

text \<open>Witness for C8: a started meeting, a stop answered with 500, then a retry that the
  server would accept: the trace still holds the one stop request and no summary is shown.\<close>

theorem stop_retry_is_noop_witness:
  "isActive started_app \<and> stop_rejected (Response 500 False)
   \<and> \<not> ui_stopBtn_disabled stop_rejected_app
   \<and> stopMeeting 12000 (Response 200 True) stop_rejected_app = stop_rejected_app
   \<and> count_list (trace (stopMeeting 12000 (Response 200 True) stop_rejected_app))
        (Fetch ''POST'' ''/api/meetings/m1/stop'') = 1
   \<and> ui_meetingSummary (stopMeeting 12000 (Response 200 True) stop_rejected_app) = None"
proof -
  have a: "isActive started_app" by (simp add: started_app_eval new_app_def)
  have b: "stop_rejected (Response 500 False)" by (simp add: stop_rejected_def)
  have c: "stopMeeting 12000 (Response 200 True) stop_rejected_app = stop_rejected_app"
    using stop_retry_is_noop [OF a b, where now = 9000 and now' = 12000
        and outcome' = "Response 200 True"]
    by (simp add: stop_rejected_app_def)
  show ?thesis
    unfolding c using a b
    by (simp add: stop_rejected_app_eval started_app_eval new_app_def)
qed

section \<open>Fallback from the event source to polling\<close>

lemma appendTranscript_sync_frame [simp]:
  "eventSource (appendTranscript es st) = eventSource st"
  "pollingInterval (appendTranscript es st) = pollingInterval st"
  "intervals (appendTranscript es st) = intervals st"
  "durationInterval (appendTranscript es st) = durationInterval st"
  using appendTranscript_frame [of es st] by auto

lemma updateQADisplay_sync_frame [simp]:
  "eventSource (updateQADisplay qs st) = eventSource st"
  "pollingInterval (updateQADisplay qs st) = pollingInterval st"
  "intervals (updateQADisplay qs st) = intervals st"
  "durationInterval (updateQADisplay qs st) = durationInterval st"
  by (simp_all add: updateQADisplay_def)

lemma handleMeetingComplete_sync_frame:
  "eventSource (handleMeetingComplete now st) = eventSource st"
  "pollingInterval (handleMeetingComplete now st) = pollingInterval st"
  "intervals (handleMeetingComplete now st) =
     (case durationInterval st of None \<Rightarrow> intervals st
      | Some d \<Rightarrow> filter (\<lambda>(i, cb, ms). i \<noteq> d) (intervals st))"
  "durationInterval (handleMeetingComplete now st) = None"
  by (simp_all add: handleMeetingComplete_def stopDurationTimer_def showScreen_def
        clearInterval_def emit_def Let_def split: option.splits)

lemma handleMeetingComplete_polling_only:
  "polling_only t st \<Longrightarrow> polling_only t (handleMeetingComplete now st)"
  by (auto simp: polling_only_def es_live_def handleMeetingComplete_sync_frame
        split: option.splits)

lemma handleUpdate_polling_only:
  assumes "polling_only t st"
  shows "polling_only t (handleUpdate now data st)"
proof (cases "truthy_str (upd_error data)")
  case True
  then show ?thesis using assms
    by (simp add: handleUpdate_error emit_def polling_only_def es_live_def)
next
  case noerr: False
  show ?thesis
  proof (cases "upd_status data = Some ''completed''")
    case True
    then show ?thesis using assms noerr
      by (simp add: handleUpdate_def handleMeetingComplete_polling_only)
  next
    case False
    then show ?thesis using assms noerr
      by (simp add: handleUpdate_merge Let_def emit_def polling_only_def es_live_def)
  qed
qed

lemma handleUpdate_closes: "closes (handleUpdate now data st) = closes st"
  by (simp add: closes_def handleUpdate_def handleMeetingComplete_trace emit_def Let_def
        split: option.splits)

lemma handleUpdate_opens: "opens (handleUpdate now data st) = opens st"
  by (simp add: opens_def handleUpdate_def handleMeetingComplete_trace emit_def Let_def
        split: option.splits)

lemma poll_tick_polling_only:
  "polling_only t st \<Longrightarrow> polling_only t (poll_tick now outcome st)"
proof -
  assume a: "polling_only t st"
  then have b: "polling_only t (emit (Fetch ''GET'' (minutes_url st)) st)"
    by (simp add: polling_only_def es_live_def emit_def)
  show ?thesis
  proof (cases outcome)
    case PollFailed
    then show ?thesis using b
      by (simp add: poll_tick_def Let_def polling_only_def es_live_def emit_def)
  next
    case (PollResponse code body)
    then show ?thesis using b handleUpdate_polling_only [OF b]
      by (cases body)
         (simp_all add: poll_tick_def Let_def polling_only_def es_live_def emit_def)
  qed
qed

lemma poll_tick_closes: "closes (poll_tick now outcome st) = closes st"
  by (cases outcome)
     (simp_all add: poll_tick_def Let_def handleUpdate_closes split: option.splits,
      simp_all add: closes_def emit_def)

lemma poll_tick_opens: "opens (poll_tick now outcome st) = opens st"
  by (cases outcome)
     (simp_all add: poll_tick_def Let_def handleUpdate_opens split: option.splits,
      simp_all add: opens_def emit_def)

lemma sync_step_polling_only:
  "polling_only t st \<Longrightarrow>
   polling_only t (sync_step st ev) \<and> closes (sync_step st ev) = closes st
   \<and> opens (sync_step st ev) = opens st
   \<and> sync_step st ev = (if is_poll_event ev then sync_step st ev else st)"
proof -
  assume a: "polling_only t st"
  then have dead: "\<not> es_live st" by (simp add: polling_only_def)
  obtain now e where ev: "ev = (now, e)" by (cases ev)
  show ?thesis
  proof (cases e)
    case SSEOpened
    then show ?thesis using a dead ev by simp
  next
    case (SSEMessage payload)
    then show ?thesis using a dead ev by simp
  next
    case SSEError
    then show ?thesis using a dead ev by simp
  next
    case (PollTimer i outcome)
    then show ?thesis using a ev
      by (simp add: poll_tick_polling_only poll_tick_closes poll_tick_opens)
  qed
qed

lemma sync_run_polling_only:
  "polling_only t st \<Longrightarrow>
   polling_only t (sync_run evs st) \<and> closes (sync_run evs st) = closes st
   \<and> opens (sync_run evs st) = opens st
   \<and> sync_run evs st = sync_run (filter is_poll_event evs) st"
proof (induction evs arbitrary: st)
  case Nil
  then show ?case by (simp add: sync_run_def)
next
  case (Cons ev evs)
  have step: "sync_run (ev # evs) st = sync_run evs (sync_step st ev)"
    by (simp add: sync_run_def)
  note s = sync_step_polling_only [OF Cons.prems, of ev]
  have ih: "polling_only t (sync_run evs (sync_step st ev))
       \<and> closes (sync_run evs (sync_step st ev)) = closes (sync_step st ev)
       \<and> opens (sync_run evs (sync_step st ev)) = opens (sync_step st ev)
       \<and> sync_run evs (sync_step st ev) = sync_run (filter is_poll_event evs) (sync_step st ev)"
    using Cons.IH s by blast
  from ih have i1: "polling_only t (sync_run evs (sync_step st ev))"
    and i2: "closes (sync_run evs (sync_step st ev)) = closes (sync_step st ev)"
    and i3: "opens (sync_run evs (sync_step st ev)) = opens (sync_step st ev)"
    and i4: "sync_run evs (sync_step st ev) = sync_run (filter is_poll_event evs) (sync_step st ev)"
    by blast+
  from s have s2: "closes (sync_step st ev) = closes st"
    and s3: "opens (sync_step st ev) = opens st"
    and s4: "sync_step st ev = (if is_poll_event ev then sync_step st ev else st)"
    by blast+
  have f: "sync_run (filter is_poll_event (ev # evs)) st
      = sync_run (filter is_poll_event evs) (sync_step st ev)"
  proof (cases "is_poll_event ev")
    case True
    then show ?thesis by (simp add: sync_run_def)
  next
    case False
    then have "sync_step st ev = st" using s4 by simp
    then show ?thesis using False by (simp add: sync_run_def)
  qed
  have "polling_only t (sync_run (ev # evs) st)" unfolding step by (rule i1)
  moreover have "closes (sync_run (ev # evs) st) = closes st"
    unfolding step using i2 s2 by (rule trans)
  moreover have "opens (sync_run (ev # evs) st) = opens st"
    unfolding step using i3 s3 by (rule trans)
  moreover have "sync_run (ev # evs) st = sync_run (filter is_poll_event (ev # evs)) st"
    unfolding step f by (rule i4)
  ultimately show ?case by blast
qed

lemma sse_onerror_eval:
  "sse_onerror st = st\<lparr>
      eventSource := map_option (\<lambda>es. es\<lparr>readyState := Closed\<rparr>) (eventSource st),
      pollingInterval := Some (nextTimerId st),
      intervals := intervals st @ [(nextTimerId st, PollCallback, 3000)],
      nextTimerId := Suc (nextTimerId st),
      trace := trace st @ [ConsoleLog ''SSE error, falling back to polling'',
                           CloseEventSource, SetInterval (nextTimerId st) 3000]\<rparr>"
  by (simp add: sse_onerror_def startPolling_def setInterval_def close_eventSource_def
        emit_def Let_def)

lemma sse_onerror_polling_only:
  "durationInterval st \<noteq> Some (nextTimerId st) \<Longrightarrow>
   polling_only (nextTimerId st) (sse_onerror st)"
  by (cases "eventSource st") (simp_all add: sse_onerror_eval polling_only_def es_live_def)

lemma handleUpdate_meetingId: "meetingId (handleUpdate now data st) = meetingId st"
proof (cases "truthy_str (upd_error data)")
  case True
  then show ?thesis by (simp add: handleUpdate_error emit_def)
next
  case noerr: False
  show ?thesis
  proof (cases "upd_status data = Some ''completed''")
    case True
    then show ?thesis using noerr
      by (simp add: handleUpdate_def handleMeetingComplete_def stopDurationTimer_def
            showScreen_def clearInterval_def emit_def Let_def split: option.splits)
  next
    case False
    have "meetingId (appendTranscript es s) = meetingId s" for es s
      using appendTranscript_frame [of es s] by auto
    then show ?thesis using noerr False
      by (simp add: handleUpdate_merge Let_def emit_def updateQADisplay_def)
  qed
qed

lemma sync_step_meetingId: "meetingId (sync_step st ev) = meetingId st"
proof -
  obtain now e where ev: "ev = (now, e)" by (cases ev)
  show ?thesis
  proof (cases e)
    case SSEOpened
    then show ?thesis using ev by simp
  next
    case (SSEMessage payload)
    then show ?thesis using ev
      by (cases payload) (simp_all add: sse_onmessage_def emit_def handleUpdate_meetingId)
  next
    case SSEError
    then show ?thesis using ev by (simp add: sse_onerror_eval)
  next
    case (PollTimer i outcome)
    show ?thesis
    proof (cases outcome)
      case PollFailed
      then show ?thesis using ev PollTimer by (simp add: poll_tick_def Let_def emit_def)
    next
      case (PollResponse code body)
      then show ?thesis using ev PollTimer
        by (cases body) (simp_all add: poll_tick_def Let_def emit_def handleUpdate_meetingId)
    qed
  qed
qed

lemma sync_run_meetingId: "meetingId (sync_run evs st) = meetingId st"
  unfolding sync_run_def
  by (induction evs arbitrary: st) (simp_all add: sync_step_meetingId)

lemma polling_only_timer_active:
  "polling_only t st \<Longrightarrow> poll_timer_active t st"
  by (force simp: polling_only_def poll_timer_active_def list_ex_iff)

lemma polling_only_poll_step:
  assumes "polling_only t st"
  shows "sync_step st (tick, PollTimer t (PollResponse code (Some data))) =
           (if response_ok code
            then handleUpdate tick data (emit (Fetch ''GET'' (minutes_url st)) st)
            else emit (Fetch ''GET'' (minutes_url st)) st)"
    and "sync_step st (tick, PollTimer t (PollResponse code None)) =
           (if response_ok code
            then emit (ConsoleError ''Polling error:'') (emit (Fetch ''GET'' (minutes_url st)) st)
            else emit (Fetch ''GET'' (minutes_url st)) st)"
    and "sync_step st (tick, PollTimer t PollFailed) =
           emit (ConsoleError ''Polling error:'') (emit (Fetch ''GET'' (minutes_url st)) st)"
    and "sync_step st (tick, SSEMessage payload) = st"
    and "sync_step st (tick, SSEError) = st"
  using polling_only_timer_active [OF assms] assms
  by (simp_all add: poll_tick_def Let_def polling_only_def)

text \<open>
  Claim C7. In a state whose event source is not closed (and whose duration timer is not the
  timer id the host hands out next), an error of the event source writes one log line,
  closes the source once and registers one polling interval of 3000 ms. Over every run of
  events of the transport after that, the source stays closed, no source is closed or
  opened again, the polling interval stays registered, and the events of the event source
  change nothing: the run equals the run of its polling events alone. At every point of
  such a run a tick of the registered interval requests the minutes of the meeting and,
  when the response is 2xx and its body parses, hands the body to \<open>handleUpdate\<close>; a
  response that is not 2xx is dropped, and a failed request or a body that does not parse
  is written to the console. A message or an error of the event source at that point is
  not delivered.
\<close>

theorem fallback_to_polling:
  assumes "es_live st" and "durationInterval st \<noteq> Some (nextTimerId st)"
  shows "trace (sync_step st (now, SSEError)) =
           trace st @ [ConsoleLog ''SSE error, falling back to polling'', CloseEventSource,
                       SetInterval (nextTimerId st) 3000]
       \<and> intervals (sync_step st (now, SSEError)) =
           intervals st @ [(nextTimerId st, PollCallback, 3000)]
       \<and> \<not> es_live (sync_run evs (sync_step st (now, SSEError)))
       \<and> closes (sync_run evs (sync_step st (now, SSEError))) = closes st + 1
       \<and> opens (sync_run evs (sync_step st (now, SSEError))) = opens st
       \<and> pollingInterval (sync_run evs (sync_step st (now, SSEError))) = Some (nextTimerId st)
       \<and> (nextTimerId st, PollCallback, 3000)
            \<in> set (intervals (sync_run evs (sync_step st (now, SSEError))))
       \<and> sync_run evs (sync_step st (now, SSEError))
           = sync_run (filter is_poll_event evs) (sync_step st (now, SSEError))
       \<and> sync_step (sync_run evs (sync_step st (now, SSEError)))
             (tick, PollTimer (nextTimerId st) (PollResponse code (Some data)))
           = (if response_ok code
              then handleUpdate tick data
                     (emit (Fetch ''GET'' (minutes_url (sync_run evs (sync_step st (now, SSEError)))))
                        (sync_run evs (sync_step st (now, SSEError))))
              else emit (Fetch ''GET'' (minutes_url (sync_run evs (sync_step st (now, SSEError)))))
                     (sync_run evs (sync_step st (now, SSEError))))
       \<and> sync_step (sync_run evs (sync_step st (now, SSEError)))
             (tick, PollTimer (nextTimerId st) (PollResponse code None))
           = (if response_ok code
              then emit (ConsoleError ''Polling error:'')
                     (emit (Fetch ''GET'' (minutes_url (sync_run evs (sync_step st (now, SSEError)))))
                        (sync_run evs (sync_step st (now, SSEError))))
              else emit (Fetch ''GET'' (minutes_url (sync_run evs (sync_step st (now, SSEError)))))
                     (sync_run evs (sync_step st (now, SSEError))))
       \<and> sync_step (sync_run evs (sync_step st (now, SSEError)))
             (tick, PollTimer (nextTimerId st) PollFailed)
           = emit (ConsoleError ''Polling error:'')
               (emit (Fetch ''GET'' (minutes_url (sync_run evs (sync_step st (now, SSEError)))))
                  (sync_run evs (sync_step st (now, SSEError))))
       \<and> sync_step (sync_run evs (sync_step st (now, SSEError))) (tick, SSEMessage payload)
           = sync_run evs (sync_step st (now, SSEError))
       \<and> sync_step (sync_run evs (sync_step st (now, SSEError))) (tick, SSEError)
           = sync_run evs (sync_step st (now, SSEError))
       \<and> meetingId (sync_run evs (sync_step st (now, SSEError))) = meetingId st"
proof -
  have step: "sync_step st (now, SSEError) = sse_onerror st" using assms(1) by simp
  have inv: "polling_only (nextTimerId st) (sse_onerror st)"
    using assms(2) by (rule sse_onerror_polling_only)
  have c: "closes (sse_onerror st) = closes st + 1" "opens (sse_onerror st) = opens st"
    by (simp_all add: sse_onerror_eval closes_def opens_def)
  have t: "trace (sse_onerror st) =
           trace st @ [ConsoleLog ''SSE error, falling back to polling'', CloseEventSource,
                       SetInterval (nextTimerId st) 3000]"
    and i: "intervals (sse_onerror st) = intervals st @ [(nextTimerId st, PollCallback, 3000)]"
    by (simp_all add: sse_onerror_eval)
  note r = sync_run_polling_only [OF inv, of evs]
  from r have r1: "polling_only (nextTimerId st) (sync_run evs (sse_onerror st))"
    and r2: "closes (sync_run evs (sse_onerror st)) = closes (sse_onerror st)"
    and r3: "opens (sync_run evs (sse_onerror st)) = opens (sse_onerror st)"
    and r4: "sync_run evs (sse_onerror st) = sync_run (filter is_poll_event evs) (sse_onerror st)"
    by blast+
  from r1 have p1: "\<not> es_live (sync_run evs (sse_onerror st))"
    and p2: "pollingInterval (sync_run evs (sse_onerror st)) = Some (nextTimerId st)"
    and p3: "(nextTimerId st, PollCallback, 3000) \<in> set (intervals (sync_run evs (sse_onerror st)))"
    by (simp_all add: polling_only_def)
  have q2: "closes (sync_run evs (sse_onerror st)) = closes st + 1" using r2 c(1) by (rule trans)
  have q3: "opens (sync_run evs (sse_onerror st)) = opens st" using r3 c(2) by (rule trans)
  note ps = polling_only_poll_step [OF r1, of tick]
  have m: "meetingId (sync_run evs (sse_onerror st)) = meetingId st"
    using sync_run_meetingId [of evs "sse_onerror st"] by (simp add: sse_onerror_eval)
  show ?thesis
    unfolding step
    by (intro conjI) (rule t i p1 p2 p3 q2 q3 r4 ps m)+
qed

text \<open>Witness for C7: a started meeting whose stream fails; a later stream message and a
  second stream error are not delivered, the polled update is applied; one more tick with
  a 200 response sets the participant count from its body, and a tick answered with 404
  requests the minutes and applies nothing.\<close>

theorem fallback_to_polling_witness:
  "es_live started_app \<and> durationInterval started_app \<noteq> Some (nextTimerId started_app)
   \<and> closes (sync_run fallback_events (sync_step started_app (2000, SSEError))) = 1
   \<and> opens (sync_run fallback_events (sync_step started_app (2000, SSEError))) = 1
   \<and> pollingInterval (sync_run fallback_events (sync_step started_app (2000, SSEError))) = Some 2
   \<and> ui_participantCount (sync_run fallback_events (sync_step started_app (2000, SSEError)))
       = ''5 participants''
   \<and> ui_participantCount
        (sync_step (sync_run fallback_events (sync_step started_app (2000, SSEError)))
           (9000, PollTimer 2 (PollResponse 200 (Some (no_fields\<lparr>upd_total_speakers := Some 12\<rparr>)))))
       = ''12 participants''
   \<and> sync_step (sync_run fallback_events (sync_step started_app (2000, SSEError)))
           (9000, PollTimer 2 (PollResponse 404 (Some (no_fields\<lparr>upd_total_speakers := Some 12\<rparr>))))
       = emit (Fetch ''GET'' ''/api/meetings/m1/minutes'')
           (sync_run fallback_events (sync_step started_app (2000, SSEError)))"
proof -
  let ?S = "sync_run fallback_events (sync_step started_app (2000, SSEError))"
  let ?u = "no_fields\<lparr>upd_total_speakers := Some 12\<rparr>"
  have a: "es_live started_app" by (simp add: es_live_def started_app_eval new_app_def)
  have b: "durationInterval started_app \<noteq> Some (nextTimerId started_app)"
    by (simp add: started_app_eval new_app_def)
  have c: "closes started_app = 0" "opens started_app = 1" "nextTimerId started_app = 2"
      "meetingId started_app = Some ''m1''"
    by (simp_all add: closes_def opens_def started_app_eval new_app_def)
  have d: "ui_participantCount (sync_run (filter is_poll_event fallback_events)
              (sync_step started_app (2000, SSEError))) = ''5 participants''"
    by (simp add: fallback_events_def sync_run_def es_live_def sse_onerror_eval poll_timer_active_def
          poll_tick_def response_ok_def handleUpdate_def no_fields_def truthy_str_def
          truthy_num_def has_items_def emit_def participant_text_5 Let_def
          started_app_eval new_app_def)
  note th = fallback_to_polling [OF a b, where now = 2000 and evs = fallback_events
      and tick = 9000 and code = 200 and data = ?u]
  note th404 = fallback_to_polling [OF a b, where now = 2000 and evs = fallback_events
      and tick = 9000 and code = 404 and data = ?u]
  from th have e1: "closes ?S = closes started_app + 1"
    and e2: "opens ?S = opens started_app"
    and e3: "pollingInterval ?S = Some (nextTimerId started_app)"
    and e4: "?S = sync_run (filter is_poll_event fallback_events)
                    (sync_step started_app (2000, SSEError))"
    and e5: "sync_step ?S (9000, PollTimer (nextTimerId started_app) (PollResponse 200 (Some ?u)))
        = (if response_ok 200
           then handleUpdate 9000 ?u (emit (Fetch ''GET'' (minutes_url ?S)) ?S)
           else emit (Fetch ''GET'' (minutes_url ?S)) ?S)"
    and e6: "meetingId ?S = meetingId started_app"
    by blast+
  from th404 have e7:
      "sync_step ?S (9000, PollTimer (nextTimerId started_app) (PollResponse 404 (Some ?u)))
        = (if response_ok 404
           then handleUpdate 9000 ?u (emit (Fetch ''GET'' (minutes_url ?S)) ?S)
           else emit (Fetch ''GET'' (minutes_url ?S)) ?S)"
    by blast
  have f1: "closes ?S = 1" using e1 c(1) by simp
  have f2: "opens ?S = 1" using e2 c(2) by simp
  have f3: "pollingInterval ?S = Some 2" using e3 c(3) by simp
  have f4: "ui_participantCount ?S = ''5 participants''"
    by (subst e4) (rule d)
  have url: "minutes_url ?S = ''/api/meetings/m1/minutes''"
    unfolding minutes_url_def e6 c(4) by (simp add: show_id_def)
  have ok: "response_ok 200" and nok: "\<not> response_ok 404"
    by (simp_all add: response_ok_def)
  have g: "ui_participantCount (handleUpdate 9000 ?u X) = ''12 participants''" for X
    by (simp add: handleUpdate_def no_fields_def truthy_str_def truthy_num_def has_items_def
          Let_def participant_text_12)
  have s200: "sync_step ?S (9000, PollTimer 2 (PollResponse 200 (Some ?u)))
        = handleUpdate 9000 ?u (emit (Fetch ''GET'' (minutes_url ?S)) ?S)"
    using e5 [unfolded c(3)] by (simp only: ok if_True)
  have f5: "ui_participantCount (sync_step ?S (9000, PollTimer 2 (PollResponse 200 (Some ?u))))
       = ''12 participants''"
    by (subst s200) (rule g)
  have s404: "sync_step ?S (9000, PollTimer 2 (PollResponse 404 (Some ?u)))
        = emit (Fetch ''GET'' (minutes_url ?S)) ?S"
    using e7 [unfolded c(3)] by (simp only: nok if_False)
  have f6: "sync_step ?S (9000, PollTimer 2 (PollResponse 404 (Some ?u)))
        = emit (Fetch ''GET'' ''/api/meetings/m1/minutes'') ?S"
    using s404 by (simp only: url)
  show ?thesis
    by (intro conjI) (rule a b f1 f2 f3 f4 f5 f6)+
qed

section \<open>The audio handler: final chunk and repeated stop\<close>

lemma recording_handler_eval:
  "recording_handler = new_handler\<lparr>
      mediaRecorder := Some \<lparr>rec_state = Recording, mimeType = ''audio/webm'', gathered = []\<rparr>,
      audioContext := Some ContextRunning, stream := Some [Live],
      isRecording := True, chunkTimer := Some 1, onChunkReady := True,
      visualizerInterval := Some 2, ah_nextTimerId := 3,
      ah_trace := [RecorderStart, SetInterval 1 5000, SetInterval 2 33]\<rparr>"
  by (simp add: recording_handler_def initialize_def startRecording_def getSupportedMimeType_def
        startVisualization_def ah_setInterval_def ah_emit_def new_handler_def Let_def)

lemma delivered_append [simp]: "delivered (xs @ ys) = delivered xs @ delivered ys"
  by (induction xs rule: delivered.induct) simp_all

lemma delivered_TrackStop [simp]: "delivered (map TrackStop ns) = []"
  by (induction ns) simp_all

text \<open>Two more runs of the handler: a stop between the \<open>dataavailable\<close> of a tick and its
  100 ms timeout sends a final chunk that is followed by a chunk that is not final; two
  ticks and a stop send three chunks, none of them final.\<close>

lemma final_chunk_then_more_data:
  "delivered (ah_trace (audio_run
      [Encoded [1, 2], ChunkTimerFires, RecorderTaskRuns, Encoded [3], StopRecordingCalled,
       RecorderTaskRuns, GraceTimeoutFires] recording_handler))
     = [([1, 2], True), ([3], False)]"
  by (simp add: audio_run_def recording_handler_eval new_handler_def chunkTimer_callback_def
        run_recorder_task_def take_gathered_def ondataavailable_def onstop_def
        graceTimeout_callback_def sendChunk_def stopRecording_def clear_chunkTimer_def
        clear_visualizerInterval_def stop_recorder_def stop_tracks_def close_context_def
        ah_emit_def Let_def)

lemma two_ticks_then_stop:
  "delivered (ah_trace (audio_run
      [Encoded [1], ChunkTimerFires, RecorderTaskRuns, GraceTimeoutFires,
       Encoded [2], ChunkTimerFires, RecorderTaskRuns, GraceTimeoutFires,
       Encoded [3], StopRecordingCalled, RecorderTaskRuns] recording_handler))
     = [([1], False), ([2], False), ([3], False)]"
  by (simp add: audio_run_def recording_handler_eval new_handler_def chunkTimer_callback_def
        run_recorder_task_def take_gathered_def ondataavailable_def onstop_def
        graceTimeout_callback_def sendChunk_def stopRecording_def clear_chunkTimer_def
        clear_visualizerInterval_def stop_recorder_def stop_tracks_def close_context_def
        ah_emit_def Let_def)

lemma sendChunk_clears:
  "mediaRecorder st \<noteq> None \<Longrightarrow> chunks (sendChunk isFinal st) = []"
  by (auto simp: sendChunk_def ah_emit_def Let_def split: option.splits)

lemma sendChunk_frame:
  "mediaRecorder (sendChunk isFinal st) = mediaRecorder st"
  "audioContext (sendChunk isFinal st) = audioContext st"
  "stream (sendChunk isFinal st) = stream st"
  "chunkTimer (sendChunk isFinal st) = chunkTimer st"
  "visualizerInterval (sendChunk isFinal st) = visualizerInterval st"
  by (simp_all add: sendChunk_def ah_emit_def Let_def split: option.splits)

lemma stopRecording_teardown:
  "stopRecording st =
     (if 0 < length (chunks (teardown st)) then sendChunk True (teardown st) else teardown st)"
  by (simp add: stopRecording_def teardown_def Let_def)

lemma teardown_post:
  assumes "stream st = Some tracks" and "audioContext st = Some c" and "mediaRecorder st = Some r"
  shows "chunkTimer (teardown st) = None"
    and "visualizerInterval (teardown st) = None"
    and "mediaRecorder (teardown st) = Some (r\<lparr>rec_state := Inactive\<rparr>)"
    and "stream (teardown st) = Some (map (\<lambda>t. Ended) tracks)"
    and "audioContext (teardown st) = Some ContextClosed"
    and "chunks (teardown st) = chunks st"
  using assms
  by (simp_all add: teardown_def clear_chunkTimer_def clear_visualizerInterval_def
        stop_recorder_def stop_tracks_def close_context_def ah_emit_def Let_def
        split: option.splits)

lemma stopRecording_post:
  assumes "stream st = Some tracks" and "audioContext st = Some c" and "mediaRecorder st = Some r"
  shows "chunkTimer (stopRecording st) = None"
    and "visualizerInterval (stopRecording st) = None"
    and "mediaRecorder (stopRecording st) = Some (r\<lparr>rec_state := Inactive\<rparr>)"
    and "stream (stopRecording st) = Some (map (\<lambda>t. Ended) tracks)"
    and "audioContext (stopRecording st) = Some ContextClosed"
    and "chunks (stopRecording st) = []"
  using teardown_post [OF assms] sendChunk_clears [of "teardown st" True]
  by (simp_all add: stopRecording_teardown sendChunk_frame)

lemma teardown_again_trace:
  assumes "chunkTimer st = None" and "visualizerInterval st = None"
      and "mediaRecorder st = Some r" and "rec_state r = Inactive"
      and "stream st = Some tracks" and "audioContext st = Some ContextClosed"
  shows "ah_trace (teardown st) = ah_trace st @ map TrackStop [0..<length tracks]
           @ [AudioContextClose, UnhandledRejection ''InvalidStateError'']"
    and "chunks (teardown st) = chunks st"
  using assms
  by (simp_all add: teardown_def clear_chunkTimer_def clear_visualizerInterval_def
        stop_recorder_def stop_tracks_def close_context_def ah_emit_def Let_def)

text \<open>
  Claim C5 fails on the code for the audio handler. A second \<open>stopRecording\<close> sends no
  chunk, clears no timer and does not stop the recorder again, but it stops every track
  again and closes the audio context again, and closing a closed context rejects with
  \<open>InvalidStateError\<close>. The application's \<open>stopMeeting\<close>, once it has run, is a no-op.
\<close>

theorem second_stop_repeats_teardown:
  assumes "stream st = Some tracks" and "audioContext st = Some c" and "mediaRecorder st = Some r"
  shows "ah_trace (stopRecording (stopRecording st)) =
           ah_trace (stopRecording st) @ map TrackStop [0..<length tracks]
             @ [AudioContextClose, UnhandledRejection ''InvalidStateError'']
       \<and> delivered (ah_trace (stopRecording (stopRecording st)))
           = delivered (ah_trace (stopRecording st))
       \<and> stopMeeting now' outcome' (stopMeeting now outcome app) = stopMeeting now outcome app"
proof -
  note p = stopRecording_post [OF assms]
  have t: "ah_trace (teardown (stopRecording st)) =
           ah_trace (stopRecording st) @ map TrackStop [0..<length (map (\<lambda>t. Ended) tracks)]
             @ [AudioContextClose, UnhandledRejection ''InvalidStateError'']"
    and c: "chunks (teardown (stopRecording st)) = chunks (stopRecording st)"
    using teardown_again_trace [OF p(1) p(2) p(3) _ p(4) p(5)] by simp_all
  have "stopRecording (stopRecording st) = teardown (stopRecording st)"
    using c p(6) by (simp add: stopRecording_teardown [of "stopRecording st"])
  then have tr: "ah_trace (stopRecording (stopRecording st)) =
           ah_trace (stopRecording st) @ map TrackStop [0..<length tracks]
             @ [AudioContextClose, UnhandledRejection ''InvalidStateError'']"
    using t by simp
  then have "delivered (ah_trace (stopRecording (stopRecording st)))
           = delivered (ah_trace (stopRecording st))"
    by simp
  then show ?thesis using tr stopMeeting_twice by simp
qed

text \<open>Witness for C5: \<open>stopRecording\<close> twice on a recording handler with one track.\<close>

theorem second_stop_repeats_teardown_witness:
  "stream recording_handler = Some [Live] \<and> audioContext recording_handler = Some ContextRunning
   \<and> ah_trace (stopRecording recording_handler) =
       [RecorderStart, SetInterval 1 5000, SetInterval 2 33, ClearInterval 1, ClearInterval 2,
        RecorderStop, TrackStop 0, AudioContextClose]
   \<and> ah_trace (stopRecording (stopRecording recording_handler)) =
       [RecorderStart, SetInterval 1 5000, SetInterval 2 33, ClearInterval 1, ClearInterval 2,
        RecorderStop, TrackStop 0, AudioContextClose,
        TrackStop 0, AudioContextClose, UnhandledRejection ''InvalidStateError'']"
proof -
  have a: "stream recording_handler = Some [Live]"
      "audioContext recording_handler = Some ContextRunning"
      "mediaRecorder recording_handler =
         Some \<lparr>rec_state = Recording, mimeType = ''audio/webm'', gathered = []\<rparr>"
    by (simp_all add: recording_handler_eval new_handler_def)
  have f: "ah_trace (stopRecording recording_handler) =
       [RecorderStart, SetInterval 1 5000, SetInterval 2 33, ClearInterval 1, ClearInterval 2,
        RecorderStop, TrackStop 0, AudioContextClose]"
    by (simp add: stopRecording_def clear_chunkTimer_def clear_visualizerInterval_def
          stop_recorder_def stop_tracks_def close_context_def ah_emit_def Let_def
          recording_handler_eval new_handler_def)
  show ?thesis
    using a(1,2) f second_stop_repeats_teardown [OF a, where now = 0 and now' = 0
        and outcome = NetworkError and outcome' = NetworkError and app = new_app]
    by simp
qed

lemma teardown_recording:
  assumes "mediaRecorder st = Some r" and "rec_state r \<noteq> Inactive"
  shows "delivered (ah_trace (teardown st)) = delivered (ah_trace st)"
    and "chunks (teardown st) = chunks st"
    and "recorder_tasks (teardown st) = recorder_tasks st @ [FireDataAvailableThenStop]"
    and "mediaRecorder (teardown st) = Some (r\<lparr>rec_state := Inactive\<rparr>)"
    and "onChunkReady (teardown st) = onChunkReady st"
  using assms
  by (simp_all add: teardown_def clear_chunkTimer_def clear_visualizerInterval_def
        stop_recorder_def stop_tracks_def close_context_def ah_emit_def Let_def
        split: option.splits)

lemma sendChunk_delivered:
  assumes "mediaRecorder st = Some r" and "onChunkReady st"
  shows "delivered (ah_trace (sendChunk isFinal st)) =
           delivered (ah_trace st) @ (if chunks st = [] then [] else [(concat (chunks st), isFinal)])"
    and "chunks (sendChunk isFinal st) = []"
    and "recorder_tasks (sendChunk isFinal st) = recorder_tasks st"
    and "onChunkReady (sendChunk isFinal st)"
  using assms by (simp_all add: sendChunk_def ah_emit_def Let_def)

lemma stopRecording_recording:
  assumes "mediaRecorder st = Some r" and "rec_state r \<noteq> Inactive" and "onChunkReady st"
  shows "delivered (ah_trace (stopRecording st)) =
           delivered (ah_trace st) @ (if chunks st = [] then [] else [(concat (chunks st), True)])"
    and "chunks (stopRecording st) = []"
    and "recorder_tasks (stopRecording st) = recorder_tasks st @ [FireDataAvailableThenStop]"
    and "mediaRecorder (stopRecording st) = Some (r\<lparr>rec_state := Inactive\<rparr>)"
    and "onChunkReady (stopRecording st)"
proof -
  note t = teardown_recording [OF assms(1,2)]
  have oc: "onChunkReady (teardown st)" using t(5) assms(3) by simp
  note sc = sendChunk_delivered [OF t(4) oc, of True]
  show "delivered (ah_trace (stopRecording st)) =
           delivered (ah_trace st) @ (if chunks st = [] then [] else [(concat (chunks st), True)])"
    using t sc by (simp add: stopRecording_teardown)
  show "chunks (stopRecording st) = []"
    using t sc by (simp add: stopRecording_teardown)
  show "recorder_tasks (stopRecording st) = recorder_tasks st @ [FireDataAvailableThenStop]"
    using t sc by (simp add: stopRecording_teardown)
  show "mediaRecorder (stopRecording st) = Some (r\<lparr>rec_state := Inactive\<rparr>)"
    using t by (simp add: stopRecording_teardown sendChunk_frame)
  show "onChunkReady (stopRecording st)"
    using oc sc by (simp add: stopRecording_teardown)
qed

text \<open>
  Claim C1 fails on the code. \<open>stopRecording\<close> sends a final chunk only for what is in the
  buffer when it is called, and the bytes the recorder still holds arrive afterwards, in the
  task that \<open>stop()\<close> queues, where \<open>onstop\<close> forwards them with \<open>isFinal = false\<close>. So when
  the recorder holds bytes at the stop, the last chunk of the session is not final, and when
  the buffer is empty at the stop no chunk of the session is final.
\<close>

theorem last_chunk_after_stop_is_not_final:
  assumes "mediaRecorder st = Some r" and "rec_state r \<noteq> Inactive" and "onChunkReady st"
      and "recorder_tasks st = []" and "gathered r \<noteq> []"
  shows "delivered (ah_trace (audio_run [StopRecordingCalled, RecorderTaskRuns] st))
           = delivered (ah_trace st)
             @ (if chunks st = [] then [] else [(concat (chunks st), True)])
             @ [(gathered r, False)]"
proof -
  note s = stopRecording_recording [OF assms(1-3)]
  let ?st1 = "(stopRecording st)\<lparr>recorder_tasks := []\<rparr>"
  have run: "audio_run [StopRecordingCalled, RecorderTaskRuns] st
      = run_recorder_task FireDataAvailableThenStop ?st1"
    using s(3) assms(4) by (simp add: audio_run_def)
  have "delivered (ah_trace (run_recorder_task FireDataAvailableThenStop ?st1))
      = delivered (ah_trace (stopRecording st)) @ [(gathered r, False)]"
    using s(2,4,5) assms(5)
    by (simp add: run_recorder_task_def take_gathered_def ondataavailable_def onstop_def
          sendChunk_def ah_emit_def Let_def)
  then show ?thesis using run s(1) by simp
qed

text \<open>Witness for C1: three bytes are captured and the recording is stopped before the
  first tick of the chunk timer. The only chunk of the session is not final.\<close>

theorem last_chunk_after_stop_is_not_final_witness:
  "delivered (ah_trace (audio_run [Encoded [1, 2, 3], StopRecordingCalled, RecorderTaskRuns]
      recording_handler)) = [([1, 2, 3], False)]"
proof -
  let ?st = "audio_step recording_handler (Encoded [1, 2, 3])"
  let ?r = "\<lparr>rec_state = Recording, mimeType = ''audio/webm'', gathered = [1, 2, 3]\<rparr>"
  have st: "?st = recording_handler\<lparr>mediaRecorder := Some ?r\<rparr>"
    by (simp add: recording_handler_eval new_handler_def)
  have a: "mediaRecorder ?st = Some ?r" "rec_state ?r \<noteq> Inactive" "onChunkReady ?st"
      "recorder_tasks ?st = []" "gathered ?r \<noteq> []"
    unfolding st by (simp_all add: recording_handler_eval new_handler_def)
  have d: "delivered (ah_trace ?st) = []" "chunks ?st = []"
    unfolding st by (simp_all add: recording_handler_eval new_handler_def)
  have "audio_run [Encoded [1, 2, 3], StopRecordingCalled, RecorderTaskRuns] recording_handler
      = audio_run [StopRecordingCalled, RecorderTaskRuns] ?st"
    by (simp add: audio_run_def)
  then show ?thesis
    using last_chunk_after_stop_is_not_final [OF a] d by simp
qed

end
